theory Spec2Isabelle
  imports Main "HOL-Library.Word"
begin

section \<open>Shared data: identifiers, errors, panics\<close>

text \<open>
  \<open>flow.Identifier\<close> (32 bytes) and \<open>flow.Address\<close> (8 bytes) are only compared and
  copied by the code below, never computed with; both are read as numbers.
\<close>

type_synonym flow_identifier = nat
type_synonym flow_address = nat

text \<open>
  A Go \<open>error\<close> value. \<open>StatusError\<close> is the backend-native gRPC status error (code and
  message). \<open>Errorf format operands\<close> is the value built by \<open>fmt.Errorf(format, operands...)\<close>,
  kept symbolic: the format string as written and the operands in order. An operand of the
  verb \<open>%w\<close> is the wrapped error itself, which stays reachable through \<open>errors.Unwrap\<close>.
\<close>

datatype error =
    StatusError nat string
  | Errorf string "operand list"
and operand =
    S string
  | A flow_address
  | W error

text \<open>A run-time panic of the Go program: it aborts the call, no value is returned.\<close>

datatype panic =
    NilPointerDereference
  | IndexOutOfRange int nat
  | NotImplemented string

text \<open>How a call that may also panic ends without a value.\<close>

datatype fault =
    Returned error
  | Panicked panic

text \<open>
  An error is flat when it is a plain formatted message: made by \<open>fmt.Errorf\<close> with no
  \<open>%w\<close> operand, so that no other error value can be recovered from it.
\<close>

fun is_wrapped :: "operand \<Rightarrow> bool" where
  "is_wrapped (W e) = True"
| "is_wrapped (S s) = False"
| "is_wrapped (A a) = False"

fun flat :: "error \<Rightarrow> bool" where
  "flat (StatusError c m) = False"
| "flat (Errorf f ops) = (\<not> list_ex is_wrapped ops)"

section \<open>The embedded gateway (\<open>EmulatorGateway\<close>)\<close>

text \<open>
  \<open>backend.Emulator\<close> is an interface value holding a pointer to an engine; the gateway
  stores and passes such references, it never copies an engine.
\<close>

type_synonym emulator_ref = nat
type_synonym bytes = string

datatype cadence_value = CadenceValue string
datatype flowgo_event = FlowgoEvent string
datatype sdk_event = SdkEvent string
datatype collection = Collection "flow_identifier list"

text \<open>\<open>flow.AccountKey\<close> and \<open>flow.Account\<close> of the SDK, with the fields the code reads.\<close>

record account_key =
  Index :: int
  SequenceNumber :: nat

record flow_account =
  Address :: flow_address
  Keys :: "account_key list"

text \<open>\<open>flow.Transaction\<close>: the fields set by the gateway, and the script as the rest.\<close>

record proposal_key =
  pk_Address :: flow_address
  pk_KeyIndex :: int
  pk_SequenceNumber :: nat

record flow_transaction =
  Script :: bytes
  ReferenceBlockID :: flow_identifier
  GasLimit :: nat
  ProposalKey :: proposal_key

datatype transaction_status =
    TransactionStatusUnknown
  | TransactionStatusPending
  | TransactionStatusFinalized
  | TransactionStatusExecuted
  | TransactionStatusSealed
  | TransactionStatusExpired

record transaction_result =
  Status :: transaction_status
  Error :: "error option"

text \<open>
  \<open>flowGo.Block\<close> as the engine returns it (\<open>block.ID()\<close> is the hash of its header, kept
  here as a field), and the SDK's \<open>flow.Block\<close> that the gateway hands out.
\<close>

record flowgo_block =
  fg_ID :: flow_identifier
  fg_ParentID :: flow_identifier
  fg_Height :: "64 word"
  fg_Timestamp :: nat

record flow_block =
  fb_ID :: flow_identifier
  fb_ParentID :: flow_identifier
  fb_Height :: "64 word"
  fb_Timestamp :: nat
  CollectionGuarantees :: "flow_identifier list option"
  Seals :: "flow_identifier list option"

text \<open>
  \<open>flowGo.BlockEvents\<close> (a batch of the engine) and \<open>flow.BlockEvents\<close> (a batch of the
  gateway). A Go slice is \<open>None\<close> when it is nil (absent) and \<open>Some []\<close> when it is the
  empty slice \<open>[]flow.Event{}\<close>.
\<close>

record flowgo_block_events =
  fe_BlockID :: flow_identifier
  fe_Events :: "flowgo_event list"

record block_events =
  BlockID :: flow_identifier
  be_Height :: "64 word"
  BlockTimestamp :: nat
  Events :: "sdk_event list option"

text \<open>
  \<open>project.Account\<close> and \<open>project.Transaction\<close> as the remote gateway reads them:
  \<open>Address()\<close> and \<open>DefaultKey().Index()\<close> of an account; \<open>Signer()\<close>, \<open>Proposer()\<close>
  (nil when no proposer was given) and \<open>FlowTransaction()\<close> of a staged transaction.
\<close>

record project_account =
  pa_Address :: flow_address
  pa_DefaultKeyIndex :: int

record project_transaction =
  tx_Signer :: project_account
  tx_Proposer :: "project_account option"
  FlowTransaction :: flow_transaction

text \<open>
  The library functions the gateways call, taken as parameters: \<open>status.Convert\<close> of gRPC
  followed by \<open>Message()\<close>, the JSON-Cadence codec, the emulator's event conversion, the SDK's transaction hash
  \<open>tx.ID()\<close> and the signing of a staged transaction \<open>tx.Sign()\<close>.
\<close>

record library =
  status_Convert_Message :: "error \<Rightarrow> string"
  jsoncdc_Encode :: "cadence_value \<Rightarrow> error + bytes"
  jsoncdc_Decode :: "bytes \<Rightarrow> error + cadence_value"
  FlowEventsToSDK :: "flowgo_event list \<Rightarrow> error + sdk_event list"
  Transaction_ID :: "flow_transaction \<Rightarrow> flow_identifier"
  Transaction_Sign :: "project_transaction \<Rightarrow> error + project_transaction"

text \<open>
  The emulator's \<open>backend.Backend\<close>: the engine it currently drives (\<open>GetEmulator\<close>,
  \<open>SetEmulator\<close>) and what its methods answer at the moment of the call. A Go method
  returning \<open>(value, error)\<close> answers \<open>Inl err\<close> with a nil value, or \<open>Inr value\<close> with a
  nil error; one returning only \<open>error\<close> answers \<open>Some err\<close> or \<open>None\<close> for nil.
\<close>

record backend =
  b_emulator :: emulator_ref
  b_GetAccount :: "flow_address \<Rightarrow> error + flow_account"
  b_SendTransaction :: "flow_transaction \<Rightarrow> error option"
  b_GetTransactionResult :: "flow_identifier \<Rightarrow> error + transaction_result"
  b_GetTransaction :: "flow_identifier \<Rightarrow> error + flow_transaction"
  b_Ping :: "error option"
  b_ExecuteScriptAtLatestBlock :: "bytes \<Rightarrow> bytes list \<Rightarrow> error + bytes"
  b_GetLatestBlock :: "bool \<Rightarrow> error + flowgo_block"
  b_GetBlockByID :: "flow_identifier \<Rightarrow> error + flowgo_block"
  b_GetBlockByHeight :: "64 word \<Rightarrow> error + flowgo_block"
  b_GetEventsForBlockIDs :: "string \<Rightarrow> flow_identifier list \<Rightarrow> error + flowgo_block_events list"
  b_GetCollectionByID :: "flow_identifier \<Rightarrow> error + collection"
  b_GetLatestProtocolStateSnapshot :: "error + bytes"

text \<open>
  \<open>EmulatorGateway\<close>: the engine created at construction, the backend, and the snapshot
  store, a Go map from names to engine references. The context, the logger and the engine
  options play no part in the operations below.
\<close>

record EmulatorGateway =
  emulator :: emulator_ref
  backend :: backend
  snapshots :: "string \<rightharpoonup> emulator_ref"

definition UnwrapStatusError :: "library \<Rightarrow> error \<Rightarrow> error" where
  "UnwrapStatusError lib err = Errorf (status_Convert_Message lib err) []"

definition CreateSnapshot :: "EmulatorGateway \<Rightarrow> string \<Rightarrow> EmulatorGateway" where
  "CreateSnapshot g name = g\<lparr>snapshots := (snapshots g)(name \<mapsto> b_emulator (backend g))\<rparr>"

text \<open>\<open>LoadSnapshot\<close> returns the error (\<open>None\<close> for nil) and the gateway after the call.\<close>

definition LoadSnapshot :: "EmulatorGateway \<Rightarrow> string \<Rightarrow> error option \<times> EmulatorGateway" where
  "LoadSnapshot g name =
     (case snapshots g name of
        None \<Rightarrow> (Some (Errorf ''Could not find snapshot with name %s'' [S name]), g)
      | Some emu \<Rightarrow> (None, g\<lparr>backend := (backend g)\<lparr>b_emulator := emu\<rparr>\<rparr>))"

subsection \<open>Operations that return an error value\<close>

definition EmulatorGateway_GetAccount ::
  "library \<Rightarrow> EmulatorGateway \<Rightarrow> flow_address \<Rightarrow> error + flow_account" where
  "EmulatorGateway_GetAccount lib g address =
     (case b_GetAccount (backend g) address of
        Inl err \<Rightarrow> Inl (UnwrapStatusError lib err)
      | Inr account \<Rightarrow> Inr account)"

text \<open>\<open>SendSignedTransaction\<close> reads only \<open>tx.FlowTransaction()\<close> of its argument, which
  is passed here directly.\<close>

definition EmulatorGateway_SendSignedTransaction ::
  "library \<Rightarrow> EmulatorGateway \<Rightarrow> flow_transaction \<Rightarrow> error + flow_transaction" where
  "EmulatorGateway_SendSignedTransaction lib g tx =
     (case b_SendTransaction (backend g) tx of
        Some err \<Rightarrow> Inl (UnwrapStatusError lib err)
      | None \<Rightarrow> Inr tx)"

text \<open>The parameter \<open>waitSeal\<close> is not read: the backend is asked once.\<close>

definition EmulatorGateway_GetTransactionResult ::
  "library \<Rightarrow> EmulatorGateway \<Rightarrow> flow_identifier \<Rightarrow> bool \<Rightarrow> error + transaction_result" where
  "EmulatorGateway_GetTransactionResult lib g ID waitSeal =
     (case b_GetTransactionResult (backend g) ID of
        Inl err \<Rightarrow> Inl (UnwrapStatusError lib err)
      | Inr result \<Rightarrow> Inr result)"

definition EmulatorGateway_GetTransaction ::
  "library \<Rightarrow> EmulatorGateway \<Rightarrow> flow_identifier \<Rightarrow> error + flow_transaction" where
  "EmulatorGateway_GetTransaction lib g id' =
     (case b_GetTransaction (backend g) id' of
        Inl err \<Rightarrow> Inl (UnwrapStatusError lib err)
      | Inr transaction \<Rightarrow> Inr transaction)"

definition EmulatorGateway_Ping :: "library \<Rightarrow> EmulatorGateway \<Rightarrow> error option" where
  "EmulatorGateway_Ping lib g =
     (case b_Ping (backend g) of
        Some err \<Rightarrow> Some (UnwrapStatusError lib err)
      | None \<Rightarrow> None)"

fun cadenceValuesToMessages :: "library \<Rightarrow> cadence_value list \<Rightarrow> error + bytes list" where
  "cadenceValuesToMessages lib [] = Inr []"
| "cadenceValuesToMessages lib (val # values) =
     (case jsoncdc_Encode lib val of
        Inl err \<Rightarrow> Inl (Errorf ''convert: %w'' [W err])
      | Inr msg \<Rightarrow>
          (case cadenceValuesToMessages lib values of
             Inl err \<Rightarrow> Inl err
           | Inr msgs \<Rightarrow> Inr (msg # msgs)))"

definition messageToCadenceValue :: "library \<Rightarrow> bytes \<Rightarrow> error + cadence_value" where
  "messageToCadenceValue lib m =
     (case jsoncdc_Decode lib m of
        Inl err \<Rightarrow> Inl (Errorf ''convert: %w'' [W err])
      | Inr v \<Rightarrow> Inr v)"

definition EmulatorGateway_ExecuteScript ::
  "library \<Rightarrow> EmulatorGateway \<Rightarrow> bytes \<Rightarrow> cadence_value list \<Rightarrow> error + cadence_value" where
  "EmulatorGateway_ExecuteScript lib g script arguments =
     (case cadenceValuesToMessages lib arguments of
        Inl err \<Rightarrow> Inl (UnwrapStatusError lib err)
      | Inr args \<Rightarrow>
          (case b_ExecuteScriptAtLatestBlock (backend g) script args of
             Inl err \<Rightarrow> Inl (UnwrapStatusError lib err)
           | Inr result \<Rightarrow>
               (case messageToCadenceValue lib result of
                  Inl err \<Rightarrow> Inl (UnwrapStatusError lib err)
                | Inr v \<Rightarrow> Inr v)))"

definition convertBlock :: "flowgo_block \<Rightarrow> flow_block" where
  "convertBlock block =
     \<lparr>fb_ID = fg_ID block, fb_ParentID = fg_ParentID block, fb_Height = fg_Height block,
      fb_Timestamp = fg_Timestamp block, CollectionGuarantees = None, Seals = None\<rparr>"

definition EmulatorGateway_GetLatestBlock :: "library \<Rightarrow> EmulatorGateway \<Rightarrow> error + flow_block" where
  "EmulatorGateway_GetLatestBlock lib g =
     (case b_GetLatestBlock (backend g) True of
        Inl err \<Rightarrow> Inl (UnwrapStatusError lib err)
      | Inr block \<Rightarrow> Inr (convertBlock block))"

definition EmulatorGateway_GetCollection ::
  "library \<Rightarrow> EmulatorGateway \<Rightarrow> flow_identifier \<Rightarrow> error + collection" where
  "EmulatorGateway_GetCollection lib g id' =
     (case b_GetCollectionByID (backend g) id' of
        Inl err \<Rightarrow> Inl (UnwrapStatusError lib err)
      | Inr c \<Rightarrow> Inr c)"

definition EmulatorGateway_GetBlockByID ::
  "library \<Rightarrow> EmulatorGateway \<Rightarrow> flow_identifier \<Rightarrow> error + flow_block" where
  "EmulatorGateway_GetBlockByID lib g id' =
     (case b_GetBlockByID (backend g) id' of
        Inl err \<Rightarrow> Inl (UnwrapStatusError lib err)
      | Inr block \<Rightarrow> Inr (convertBlock block))"

definition EmulatorGateway_GetBlockByHeight ::
  "library \<Rightarrow> EmulatorGateway \<Rightarrow> 64 word \<Rightarrow> error + flow_block" where
  "EmulatorGateway_GetBlockByHeight lib g height =
     (case b_GetBlockByHeight (backend g) height of
        Inl err \<Rightarrow> Inl (UnwrapStatusError lib err)
      | Inr block \<Rightarrow> Inr (convertBlock block))"

definition EmulatorGateway_GetLatestProtocolStateSnapshot ::
  "library \<Rightarrow> EmulatorGateway \<Rightarrow> error + bytes" where
  "EmulatorGateway_GetLatestProtocolStateSnapshot lib g =
     (case b_GetLatestProtocolStateSnapshot (backend g) of
        Inl err \<Rightarrow> Inl (UnwrapStatusError lib err)
      | Inr snapshot \<Rightarrow> Inr snapshot)"

subsection \<open>Events of a height range\<close>

text \<open>
  \<open>getBlockEvent\<close> discards the errors of both backend calls and of the conversion. With
  the error of \<open>GetBlockByHeight\<close> discarded the block pointer is nil, and \<open>block.ID()\<close>
  dereferences it: the call panics. A discarded error of \<open>GetEventsForBlockIDs\<close> leaves a
  nil slice of batches, over which the loop does not iterate; a discarded error of
  \<open>FlowEventsToSDK\<close> leaves a nil slice of events in the result. The loop returns at the
  first batch carrying the block's identifier.
\<close>

definition getBlockEvent ::
  "library \<Rightarrow> EmulatorGateway \<Rightarrow> 64 word \<Rightarrow> string \<Rightarrow> panic + block_events" where
  "getBlockEvent lib g height eventType =
     (case b_GetBlockByHeight (backend g) height of
        Inl err \<Rightarrow> Inl NilPointerDereference
      | Inr block \<Rightarrow>
          (let events = (case b_GetEventsForBlockIDs (backend g) eventType [fg_ID block] of
                           Inl err \<Rightarrow> []
                         | Inr evs \<Rightarrow> evs);
               result = \<lparr>BlockID = fg_ID block, be_Height = fg_Height block,
                         BlockTimestamp = fg_Timestamp block, Events = Some []\<rparr>
           in (case find (\<lambda>e. fe_BlockID e = fg_ID block) events of
                 Some e \<Rightarrow>
                   Inr (result\<lparr>Events := (case FlowEventsToSDK lib (fe_Events e) of
                                              Inl err \<Rightarrow> None
                                            | Inr sdkEvents \<Rightarrow> Some sdkEvents)\<rparr>)
               | None \<Rightarrow> Inr result)))"

text \<open>
  The loop of \<open>GetEvents\<close>: \<open>for height := startHeight; height <= endHeight; height++\<close>
  on \<open>uint64\<close>, where \<open>height++\<close> wraps around. The result is \<open>None\<close> when the loop
  does not end, \<open>Some (Inl p)\<close> when an iteration panics, and \<open>Some (Inr events)\<close> when
  the call returns \<open>events\<close> (its error is always nil).
\<close>

partial_function (option) GetEvents_loop ::
  "library \<Rightarrow> EmulatorGateway \<Rightarrow> string \<Rightarrow> 64 word \<Rightarrow> 64 word \<Rightarrow> block_events list
     \<Rightarrow> (panic + block_events list) option" where
  "GetEvents_loop lib g eventType height endHeight events =
     (if height \<le> endHeight
      then (case getBlockEvent lib g height eventType of
              Inl p \<Rightarrow> Some (Inl p)
            | Inr e \<Rightarrow> GetEvents_loop lib g eventType (height + 1) endHeight (events @ [e]))
      else Some (Inr events))"

definition EmulatorGateway_GetEvents ::
  "library \<Rightarrow> EmulatorGateway \<Rightarrow> string \<Rightarrow> 64 word \<Rightarrow> 64 word
     \<Rightarrow> (panic + block_events list) option" where
  "EmulatorGateway_GetEvents lib g eventType startHeight endHeight =
     GetEvents_loop lib g eventType startHeight endHeight []"

text \<open>The two operations left unimplemented panic when called.\<close>

definition EmulatorGateway_GetTransactionResultsByBlockID ::
  "EmulatorGateway \<Rightarrow> flow_identifier \<Rightarrow> panic + transaction_result list" where
  "EmulatorGateway_GetTransactionResultsByBlockID g blockID =
     Inl (NotImplemented ''GetTransactionResultsByBlockID not implemented'')"

definition EmulatorGateway_GetTransactionsByBlockID ::
  "EmulatorGateway \<Rightarrow> flow_identifier \<Rightarrow> panic + flow_transaction list" where
  "EmulatorGateway_GetTransactionsByBlockID g blockID =
     Inl (NotImplemented ''GetTransactionResultsByBlockID not implemented'')"

section \<open>The remote gateway (\<open>GrpcGateway\<close>)\<close>

definition defaultGasLimit :: nat where
  "defaultGasLimit = 1000"

record block_header =
  bh_ID :: flow_identifier
  bh_Height :: "64 word"

text \<open>
  The Access API client: what each RPC answers. The network moves on between two polls of
  \<open>GetTransactionResult\<close>, so its answer depends also on how many polls of the call came
  before it.
\<close>

record client =
  c_GetAccountAtLatestBlock :: "flow_address \<Rightarrow> error + flow_account"
  c_GetLatestBlockHeader :: "bool \<Rightarrow> error + block_header"
  c_SendTransaction :: "flow_transaction \<Rightarrow> error option"
  c_GetTransaction :: "flow_identifier \<Rightarrow> error + flow_transaction"
  c_GetTransactionResult :: "flow_identifier \<Rightarrow> nat \<Rightarrow> error + transaction_result"
  c_ExecuteScriptAtLatestBlock :: "bytes \<Rightarrow> cadence_value list \<Rightarrow> error + cadence_value"
  c_GetLatestBlock :: "bool \<Rightarrow> error + flow_block"
  c_GetBlockByID :: "flow_identifier \<Rightarrow> error + flow_block"
  c_GetBlockByHeight :: "64 word \<Rightarrow> error + flow_block"
  c_GetEventsForHeightRange :: "string \<Rightarrow> 64 word \<Rightarrow> 64 word \<Rightarrow> error + block_events list"
  c_GetCollection :: "flow_identifier \<Rightarrow> error + collection"

text \<open>
  \<open>GrpcGateway\<close>: the client and a context. \<open>NewGrpcGateway\<close> is the only constructor and
  always stores \<open>context.Background()\<close>, which is never cancelled and has no deadline; no
  operation takes a context, a deadline or a cancellation signal from its caller.
\<close>

datatype go_context = Background

record GrpcGateway =
  client :: client
  ctx :: go_context

definition GrpcGateway_GetAccount :: "GrpcGateway \<Rightarrow> flow_address \<Rightarrow> error + flow_account" where
  "GrpcGateway_GetAccount g address =
     (case c_GetAccountAtLatestBlock (client g) address of
        Inl err \<Rightarrow> Inl (Errorf ''failed to get account with address %s: %w'' [A address, W err])
      | Inr account \<Rightarrow> Inr account)"

text \<open>
  \<open>PrepareTransactionPayload\<close>. The index expression \<open>proposer.Keys[i]\<close> panics when \<open>i\<close>
  is negative or not below the length of the slice. The transaction is updated in place
  and returned.
\<close>

definition PrepareTransactionPayload ::
  "GrpcGateway \<Rightarrow> project_transaction \<Rightarrow> fault + project_transaction" where
  "PrepareTransactionPayload g tx =
     (let proposalAddress =
            (case tx_Proposer tx of
               Some p \<Rightarrow> pa_Address p
             | None \<Rightarrow> pa_Address (tx_Signer tx))
      in (case GrpcGateway_GetAccount g proposalAddress of
            Inl err \<Rightarrow> Inl (Returned err)
          | Inr proposer \<Rightarrow>
              (let i = pa_DefaultKeyIndex (tx_Signer tx) in
               if i < 0 \<or> int (length (Keys proposer)) \<le> i
               then Inl (Panicked (IndexOutOfRange i (length (Keys proposer))))
               else
                 (let proposerKey = Keys proposer ! nat i in
                  (case c_GetLatestBlockHeader (client g) True of
                     Inl err \<Rightarrow>
                       Inl (Returned (Errorf ''failed to get latest sealed block: %w'' [W err]))
                   | Inr sealed \<Rightarrow>
                       Inr (tx\<lparr>FlowTransaction := (FlowTransaction tx)
                              \<lparr>ReferenceBlockID := bh_ID sealed,
                               GasLimit := defaultGasLimit,
                               ProposalKey :=
                                 \<lparr>pk_Address = proposalAddress,
                                  pk_KeyIndex = Index proposerKey,
                                  pk_SequenceNumber = SequenceNumber proposerKey\<rparr>\<rparr>\<rparr>))))))"

definition GrpcGateway_SendSignedTransaction ::
  "GrpcGateway \<Rightarrow> project_transaction \<Rightarrow> error + flow_transaction" where
  "GrpcGateway_SendSignedTransaction g transaction =
     (let tx = FlowTransaction transaction in
      case c_SendTransaction (client g) tx of
        Some err \<Rightarrow> Inl (Errorf ''failed to submit transaction: %w'' [W err])
      | None \<Rightarrow> Inr tx)"

definition GrpcGateway_SendTransaction ::
  "library \<Rightarrow> GrpcGateway \<Rightarrow> project_transaction \<Rightarrow> fault + flow_transaction" where
  "GrpcGateway_SendTransaction lib g transaction =
     (case PrepareTransactionPayload g transaction of
        Inl f \<Rightarrow> Inl f
      | Inr tx \<Rightarrow>
          (case Transaction_Sign lib tx of
             Inl err \<Rightarrow> Inl (Returned (Errorf ''failed to sign transaction: %w'' [W err]))
           | Inr tx' \<Rightarrow>
               (case GrpcGateway_SendSignedTransaction g tx' of
                  Inl err \<Rightarrow> Inl (Returned err)
                | Inr sent \<Rightarrow> Inr sent)))"

definition GrpcGateway_GetTransaction ::
  "GrpcGateway \<Rightarrow> flow_identifier \<Rightarrow> error + flow_transaction" where
  "GrpcGateway_GetTransaction g id' = c_GetTransaction (client g) id'"

text \<open>
  \<open>GetTransactionResult\<close> calls itself after a sleep of one second for as long as the
  result is not sealed and \<open>waitSeal\<close> is set. \<open>polls\<close> counts the RPCs made before the
  call; the value is the result together with the count after it, and \<open>None\<close> when the
  call never returns.
\<close>

partial_function (option) GrpcGateway_GetTransactionResult ::
  "library \<Rightarrow> GrpcGateway \<Rightarrow> flow_transaction \<Rightarrow> bool \<Rightarrow> nat
     \<Rightarrow> ((error + transaction_result) \<times> nat) option" where
  "GrpcGateway_GetTransactionResult lib g tx waitSeal polls =
     (case c_GetTransactionResult (client g) (Transaction_ID lib tx) polls of
        Inl err \<Rightarrow> Some (Inl err, Suc polls)
      | Inr result \<Rightarrow>
          if Status result \<noteq> TransactionStatusSealed \<and> waitSeal
          then GrpcGateway_GetTransactionResult lib g tx waitSeal (Suc polls)
          else Some (Inr result, Suc polls))"

definition GrpcGateway_ExecuteScript ::
  "GrpcGateway \<Rightarrow> bytes \<Rightarrow> cadence_value list \<Rightarrow> error + cadence_value" where
  "GrpcGateway_ExecuteScript g script arguments =
     (case c_ExecuteScriptAtLatestBlock (client g) script arguments of
        Inl err \<Rightarrow> Inl (Errorf ''failed to submit executable script: %w'' [W err])
      | Inr v \<Rightarrow> Inr v)"

definition GrpcGateway_GetLatestBlock :: "GrpcGateway \<Rightarrow> error + flow_block" where
  "GrpcGateway_GetLatestBlock g = c_GetLatestBlock (client g) True"

definition GrpcGateway_GetBlockByID :: "GrpcGateway \<Rightarrow> flow_identifier \<Rightarrow> error + flow_block" where
  "GrpcGateway_GetBlockByID g id' = c_GetBlockByID (client g) id'"

definition GrpcGateway_GetBlockByHeight :: "GrpcGateway \<Rightarrow> 64 word \<Rightarrow> error + flow_block" where
  "GrpcGateway_GetBlockByHeight g height = c_GetBlockByHeight (client g) height"

definition GrpcGateway_GetEvents ::
  "GrpcGateway \<Rightarrow> string \<Rightarrow> 64 word \<Rightarrow> 64 word \<Rightarrow> error + block_events list" where
  "GrpcGateway_GetEvents g eventType startHeight endHeight =
     c_GetEventsForHeightRange (client g) eventType startHeight endHeight"

definition GrpcGateway_GetCollection :: "GrpcGateway \<Rightarrow> flow_identifier \<Rightarrow> error + collection" where
  "GrpcGateway_GetCollection g id' = c_GetCollection (client g) id'"

section \<open>The command \<open>transactions send\<close>\<close>

text \<open>
  \<open>flowkit.Account\<close> of the configuration state; a role variable of type
  \<open>*flowkit.Account\<close> is \<open>None\<close> when it is nil.
\<close>

record flowkit_account =
  acc_name :: string
  acc_address :: flow_address

record flagsSend =
  ArgsJSON :: string
  Arg :: "string list"
  Signer :: string
  Proposer :: string
  Payer :: string
  Autorizer :: "string list"
  Include :: "string list"
  Exclude :: "string list"

text \<open>
  \<open>buildFlags\<close> is the flag variable of the sibling command \<open>transactions build\<close>, in the
  same package; \<open>send\<close> reads its field \<open>Payer\<close>.
\<close>

record flagsBuild =
  build_Payer :: string

record transactionAccountRoles =
  r_proposer :: "flowkit_account option"
  r_payer :: "flowkit_account option"
  r_authorizers :: "flowkit_account list"

record services_Script =
  Code :: bytes
  Filename :: string
  Args :: "cadence_value list"

text \<open>One call of \<open>srv.Transactions.Send\<close>, with its four arguments.\<close>

record submission =
  sub_roles :: transactionAccountRoles
  sub_script :: services_Script
  sub_gasLimit :: nat
  sub_network :: string

record TransactionResult =
  res_result :: transaction_result
  res_tx :: flow_transaction
  res_include :: "string list"
  res_exclude :: "string list"

text \<open>
  The collaborators of \<open>send\<close>, taken as parameters: the account lookup of the
  configuration state, the file reader, the two argument parsers, the constructor of the
  role set, the transaction service and the SDK's constant \<open>flow.DefaultTransactionGasLimit\<close>.
\<close>

record send_env =
  ByName :: "string \<Rightarrow> error + flowkit_account"
  ReadFile :: "string \<Rightarrow> error + bytes"
  ParseArgumentsJSON :: "string \<Rightarrow> error + cadence_value list"
  ParseArgumentsWithoutType :: "string \<Rightarrow> bytes \<Rightarrow> string list \<Rightarrow> error + cadence_value list"
  NewTransactionAccountRoles ::
    "flowkit_account option \<Rightarrow> flowkit_account option \<Rightarrow> flowkit_account list
       \<Rightarrow> error + transactionAccountRoles"
  Transactions_Send ::
    "submission \<Rightarrow> error + (flow_transaction \<times> transaction_result)"
  DefaultTransactionGasLimit :: nat

text \<open>The loop over \<open>sendFlags.Autorizer\<close>, appending to \<open>authorizers\<close>.\<close>

fun resolveAuthorizers ::
  "send_env \<Rightarrow> string list \<Rightarrow> flowkit_account list \<Rightarrow> error + flowkit_account list" where
  "resolveAuthorizers env [] authorizers = Inr authorizers"
| "resolveAuthorizers env (authorizerName # names) authorizers =
     (case ByName env authorizerName of
        Inl err \<Rightarrow>
          Inl (Errorf ''authorizer account: [%s] doesn't exists in configuration'' [S authorizerName])
      | Inr authorizer \<Rightarrow> resolveAuthorizers env names (authorizers @ [authorizer]))"

text \<open>
  The role resolution of \<open>send\<close>, from the declaration of \<open>proposer\<close> to the end of the
  \<open>signerName\<close> block: the three roles as they are handed to
  \<open>NewTransactionAccountRoles\<close>, or the error returned before.
\<close>

definition resolveRoles :: "send_env \<Rightarrow> flagsSend \<Rightarrow> flagsBuild \<Rightarrow> error + transactionAccountRoles" where
  "resolveRoles env sendFlags buildFlags =
     (let proposerName = Proposer sendFlags in
      case (if proposerName \<noteq> []
            then (case ByName env proposerName of
                    Inl err \<Rightarrow>
                      Inl (Errorf ''proposer account: [%s] doesn't exists in configuration'' [S proposerName])
                  | Inr acc \<Rightarrow> Inr (Some acc))
            else Inr None) of
        Inl e \<Rightarrow> Inl e
      | Inr proposer \<Rightarrow>
     (let payerName = build_Payer buildFlags in
      case (if payerName \<noteq> []
            then (case ByName env payerName of
                    Inl err \<Rightarrow>
                      Inl (Errorf ''payer account: [%s] doesn't exists in configuration'' [S payerName])
                  | Inr acc \<Rightarrow> Inr (Some acc))
            else Inr None) of
        Inl e \<Rightarrow> Inl e
      | Inr payer \<Rightarrow>
     (case resolveAuthorizers env (Autorizer sendFlags) [] of
        Inl e \<Rightarrow> Inl e
      | Inr authorizers \<Rightarrow>
     (let signerName = Signer sendFlags in
      if signerName \<noteq> []
      then
        (if proposer \<noteq> None \<or> payer \<noteq> None \<or> length authorizers > 0
         then Inl (Errorf ''signer flag cannot be combined with payer/proposer/authorizer flags'' [])
         else
           (case ByName env signerName of
              Inl err \<Rightarrow>
                Inl (Errorf ''signer account: [%s] doesn't exists in configuration'' [S signerName])
            | Inr signer \<Rightarrow>
                Inr \<lparr>r_proposer = Some signer, r_payer = Some signer,
                     r_authorizers = authorizers @ [signer]\<rparr>))
      else Inr \<lparr>r_proposer = proposer, r_payer = payer, r_authorizers = authorizers\<rparr>))))"

text \<open>
  \<open>send\<close>: the value returned (or the panic of \<open>args[0]\<close> on an empty argument list) and
  the calls of \<open>srv.Transactions.Send\<close> made on the way, which is where a transaction is
  built, signed and submitted. The deprecation warning it may print is left out.
\<close>

definition send ::
  "send_env \<Rightarrow> flagsSend \<Rightarrow> flagsBuild \<Rightarrow> string \<Rightarrow> string list
     \<Rightarrow> (fault + TransactionResult) \<times> submission list" where
  "send env sendFlags buildFlags network args =
     (case args of
        [] \<Rightarrow> (Inl (Panicked (IndexOutOfRange 0 0)), [])
      | codeFilename # rest \<Rightarrow>
     (case resolveRoles env sendFlags buildFlags of
        Inl e \<Rightarrow> (Inl (Returned e), [])
      | Inr r \<Rightarrow>
     (case ReadFile env codeFilename of
        Inl err \<Rightarrow> (Inl (Returned (Errorf ''error loading transaction file: %w'' [W err])), [])
      | Inr code \<Rightarrow>
     (case (if ArgsJSON sendFlags \<noteq> []
            then ParseArgumentsJSON env (ArgsJSON sendFlags)
            else ParseArgumentsWithoutType env codeFilename code rest) of
        Inl err \<Rightarrow>
          (Inl (Returned (Errorf ''error parsing transaction arguments: %w'' [W err])), [])
      | Inr transactionArgs \<Rightarrow>
     (case NewTransactionAccountRoles env (r_proposer r) (r_payer r) (r_authorizers r) of
        Inl err \<Rightarrow>
          (Inl (Returned (Errorf ''error parsing transaction roles: %w'' [W err])), [])
      | Inr roles \<Rightarrow>
     (let call = \<lparr>sub_roles = roles,
                  sub_script = \<lparr>Code = code, Filename = codeFilename, Args = transactionArgs\<rparr>,
                  sub_gasLimit = DefaultTransactionGasLimit env,
                  sub_network = network\<rparr>
      in case Transactions_Send env call of
           Inl err \<Rightarrow> (Inl (Returned err), [call])
         | Inr (tx, res) \<Rightarrow>
             (Inr \<lparr>res_result = res, res_tx = tx,
                   res_include = Include sendFlags, res_exclude = Exclude sendFlags\<rparr>, [call])))))))"

section \<open>Notions used to state the properties\<close>

text \<open>
  The answer of the \<open>i\<close>-th poll of \<open>GetTransactionResult\<close> for a transaction, and the
  answers on which the remote gateway stops waiting: an error or a sealed result.
\<close>

definition poll :: "library \<Rightarrow> GrpcGateway \<Rightarrow> flow_transaction \<Rightarrow> nat \<Rightarrow> error + transaction_result" where
  "poll lib g tx i = c_GetTransactionResult (client g) (Transaction_ID lib tx) i"

definition ends_wait :: "error + transaction_result \<Rightarrow> bool" where
  "ends_wait answer =
     (case answer of Inl err \<Rightarrow> True | Inr r \<Rightarrow> Status r = TransactionStatusSealed)"

text \<open>The address whose account \<open>PrepareTransactionPayload\<close> fetches: the proposer's if the
  transaction has one, the signer's otherwise.\<close>

definition proposalAddress_of :: "project_transaction \<Rightarrow> flow_address" where
  "proposalAddress_of tx =
     (case tx_Proposer tx of Some p \<Rightarrow> pa_Address p | None \<Rightarrow> pa_Address (tx_Signer tx))"

text \<open>
  A block has no matching events when the backend reports no batch under its identifier,
  or when the first such batch holds no event.
\<close>

definition no_matching_events :: "EmulatorGateway \<Rightarrow> string \<Rightarrow> flowgo_block \<Rightarrow> bool" where
  "no_matching_events g eventType block =
     (case b_GetEventsForBlockIDs (backend g) eventType [fg_ID block] of
        Inl err \<Rightarrow> True
      | Inr evs \<Rightarrow>
          (case find (\<lambda>e. fe_BlockID e = fg_ID block) evs of
             None \<Rightarrow> True
           | Some e \<Rightarrow> fe_Events e = []))"

text \<open>Every account name that \<open>send\<close> looks up before its signer check is in the
  configuration.\<close>

definition names_resolve :: "send_env \<Rightarrow> flagsSend \<Rightarrow> flagsBuild \<Rightarrow> bool" where
  "names_resolve env sendFlags buildFlags =
     ((Proposer sendFlags = [] \<or> \<not> isl (ByName env (Proposer sendFlags))) \<and>
      (build_Payer buildFlags = [] \<or> \<not> isl (ByName env (build_Payer buildFlags))) \<and>
      list_all (\<lambda>n. \<not> isl (ByName env n)) (Autorizer sendFlags))"

definition role_conflict :: error where
  "role_conflict = Errorf ''signer flag cannot be combined with payer/proposer/authorizer flags'' []"

text \<open>An error of the role resolution that names one role and one account name that the
  configuration does not have.\<close>

fun unresolved_name :: "error \<Rightarrow> bool" where
  "unresolved_name (Errorf f [S n]) =
     (f = ''proposer account: [%s] doesn't exists in configuration'' \<or>
      f = ''payer account: [%s] doesn't exists in configuration'' \<or>
      f = ''authorizer account: [%s] doesn't exists in configuration'' \<or>
      f = ''signer account: [%s] doesn't exists in configuration'')"
| "unresolved_name e = False"

text \<open>One optional lookup of \<open>send\<close>, as it is written twice there: for the proposer
  and for the payer.\<close>

definition lookup_role :: "send_env \<Rightarrow> string \<Rightarrow> string \<Rightarrow> error + flowkit_account option" where
  "lookup_role env format roleName =
     (if roleName \<noteq> []
      then (case ByName env roleName of
              Inl err \<Rightarrow> Inl (Errorf format [S roleName])
            | Inr acc \<Rightarrow> Inr (Some acc))
      else Inr None)"

text \<open>
  An error hands a backend's error across the gateway boundary when it is that error
  itself or wraps it intact as a \<open>%w\<close> operand.
\<close>

fun carries :: "error \<Rightarrow> error \<Rightarrow> bool" where
  "carries native (Errorf f ops) = (Errorf f ops = native \<or> W native \<in> set ops)"
| "carries native (StatusError c m) = (StatusError c m = native)"

text \<open>
  The error of the first account name, in the order of the lookups of \<open>send\<close> (the
  proposer name, the payer name it reads, the authorizer names from left to right), that
  the configuration does not have; \<open>None\<close> when every name looked up is there.
\<close>

definition first_unresolved :: "send_env \<Rightarrow> flagsSend \<Rightarrow> flagsBuild \<Rightarrow> error option" where
  "first_unresolved env sendFlags buildFlags =
     (if Proposer sendFlags \<noteq> [] \<and> isl (ByName env (Proposer sendFlags))
      then Some (Errorf ''proposer account: [%s] doesn't exists in configuration''
                   [S (Proposer sendFlags)])
      else if build_Payer buildFlags \<noteq> [] \<and> isl (ByName env (build_Payer buildFlags))
      then Some (Errorf ''payer account: [%s] doesn't exists in configuration''
                   [S (build_Payer buildFlags)])
      else (case find (\<lambda>n. isl (ByName env n)) (Autorizer sendFlags) of
              Some n \<Rightarrow>
                Some (Errorf ''authorizer account: [%s] doesn't exists in configuration'' [S n])
            | None \<Rightarrow> None))"

section \<open>Concrete inputs\<close>

definition ex_lib :: library where
  "ex_lib =
     \<lparr>status_Convert_Message = (\<lambda>e. case e of StatusError c m \<Rightarrow> m | Errorf f ops \<Rightarrow> f),
      jsoncdc_Encode = (\<lambda>v. case v of CadenceValue s \<Rightarrow> Inr s),
      jsoncdc_Decode = (\<lambda>b. Inr (CadenceValue b)),
      FlowEventsToSDK = (\<lambda>es. Inr (map (\<lambda>e. case e of FlowgoEvent s \<Rightarrow> SdkEvent s) es)),
      Transaction_ID = (\<lambda>t. 1),
      Transaction_Sign = (\<lambda>t. Inr t)\<rparr>"

definition ex_block :: "64 word \<Rightarrow> flowgo_block" where
  "ex_block h = \<lparr>fg_ID = 100 + unat h, fg_ParentID = 99 + unat h, fg_Height = h, fg_Timestamp = 0\<rparr>"

definition ex_pending :: transaction_result where
  "ex_pending = \<lparr>Status = TransactionStatusPending, Error = None\<rparr>"

definition ex_sealed :: transaction_result where
  "ex_sealed = \<lparr>Status = TransactionStatusSealed, Error = None\<rparr>"

text \<open>An engine with blocks at the heights 0 to 3, one event of type \<open>A.Ev\<close> in the block
  at height 1, a pending transaction 1, and nothing else.\<close>

definition ex_backend :: backend where
  "ex_backend =
     \<lparr>b_emulator = 1,
      b_GetAccount = (\<lambda>a. Inl (StatusError 5 ''account not found'')),
      b_SendTransaction = (\<lambda>t. Some (StatusError 3 ''invalid transaction'')),
      b_GetTransactionResult =
        (\<lambda>i. if i = 1 then Inr ex_pending else Inl (StatusError 5 ''transaction not found'')),
      b_GetTransaction = (\<lambda>i. Inl (StatusError 5 ''transaction not found'')),
      b_Ping = Some (StatusError 14 ''unavailable''),
      b_ExecuteScriptAtLatestBlock = (\<lambda>s args. Inl (StatusError 3 ''script failed'')),
      b_GetLatestBlock = (\<lambda>sealed. Inr (ex_block 3)),
      b_GetBlockByID = (\<lambda>i. Inl (StatusError 5 ''block not found'')),
      b_GetBlockByHeight =
        (\<lambda>h. if h \<le> 3 then Inr (ex_block h) else Inl (StatusError 5 ''block not found'')),
      b_GetEventsForBlockIDs =
        (\<lambda>ty ids. Inr (map (\<lambda>i. \<lparr>fe_BlockID = i,
                                   fe_Events = (if i = 101 \<and> ty = ''A.Ev''
                                                then [FlowgoEvent ''e1''] else [])\<rparr>) ids)),
      b_GetCollectionByID = (\<lambda>i. Inl (StatusError 5 ''collection not found'')),
      b_GetLatestProtocolStateSnapshot = Inl (StatusError 12 ''unimplemented'')\<rparr>"

definition ex_gateway :: EmulatorGateway where
  "ex_gateway = \<lparr>emulator = 1, backend = ex_backend, snapshots = [''saved'' \<mapsto> 7]\<rparr>"

text \<open>A network on which account 10 has two keys and transaction 1 is pending at the first
  two polls and sealed from the third on.\<close>

definition ex_client :: client where
  "ex_client =
     \<lparr>c_GetAccountAtLatestBlock =
        (\<lambda>a. if a = 10
              then Inr \<lparr>Address = 10,
                        Keys = [\<lparr>Index = 0, SequenceNumber = 40\<rparr>, \<lparr>Index = 1, SequenceNumber = 41\<rparr>]\<rparr>
              else Inl (StatusError 5 ''account not found'')),
      c_GetLatestBlockHeader = (\<lambda>sealed. Inr \<lparr>bh_ID = 77, bh_Height = 12\<rparr>),
      c_SendTransaction = (\<lambda>t. None),
      c_GetTransaction = (\<lambda>i. Inl (StatusError 5 ''transaction not found'')),
      c_GetTransactionResult = (\<lambda>i n. if n < 2 then Inr ex_pending else Inr ex_sealed),
      c_ExecuteScriptAtLatestBlock = (\<lambda>s args. Inl (StatusError 3 ''script failed'')),
      c_GetLatestBlock = (\<lambda>sealed. Inl (StatusError 14 ''unavailable'')),
      c_GetBlockByID = (\<lambda>i. Inl (StatusError 5 ''block not found'')),
      c_GetBlockByHeight = (\<lambda>h. Inl (StatusError 5 ''block not found'')),
      c_GetEventsForHeightRange = (\<lambda>ty s e. Inl (StatusError 3 ''invalid range'')),
      c_GetCollection = (\<lambda>i. Inl (StatusError 5 ''collection not found''))\<rparr>"

definition ex_grpc :: GrpcGateway where
  "ex_grpc = \<lparr>client = ex_client, ctx = Background\<rparr>"

text \<open>The same network, on which the transaction is never sealed.\<close>

definition ex_grpc_pending :: GrpcGateway where
  "ex_grpc_pending =
     \<lparr>client = ex_client\<lparr>c_GetTransactionResult := (\<lambda>i n. Inr ex_pending)\<rparr>, ctx = Background\<rparr>"

text \<open>A network on which the transaction is finalized at every poll and never sealed.\<close>

definition ex_finalized :: transaction_result where
  "ex_finalized = \<lparr>Status = TransactionStatusFinalized, Error = None\<rparr>"

definition ex_grpc_finalized :: GrpcGateway where
  "ex_grpc_finalized =
     \<lparr>client = ex_client\<lparr>c_GetTransactionResult := (\<lambda>i n. Inr ex_finalized)\<rparr>, ctx = Background\<rparr>"

definition ex_tx :: flow_transaction where
  "ex_tx = \<lparr>Script = ''transaction {}'', ReferenceBlockID = 0, GasLimit = 9999,
            ProposalKey = \<lparr>pk_Address = 0, pk_KeyIndex = 0, pk_SequenceNumber = 0\<rparr>\<rparr>"

text \<open>A staged transaction with gas limit 9999, signed by account 20 with its key 1 and
  proposed by account 10, whose own default key is key 0.\<close>

definition ex_ptx :: project_transaction where
  "ex_ptx = \<lparr>tx_Signer = \<lparr>pa_Address = 20, pa_DefaultKeyIndex = 1\<rparr>,
             tx_Proposer = Some \<lparr>pa_Address = 10, pa_DefaultKeyIndex = 0\<rparr>,
             FlowTransaction = ex_tx\<rparr>"

definition ex_prepared :: project_transaction where
  "ex_prepared =
     \<lparr>tx_Signer = \<lparr>pa_Address = 20, pa_DefaultKeyIndex = 1\<rparr>,
      tx_Proposer = Some \<lparr>pa_Address = 10, pa_DefaultKeyIndex = 0\<rparr>,
      FlowTransaction =
        \<lparr>Script = ''transaction {}'', ReferenceBlockID = 77, GasLimit = 1000,
         ProposalKey = \<lparr>pk_Address = 10, pk_KeyIndex = 1, pk_SequenceNumber = 41\<rparr>\<rparr>\<rparr>"

text \<open>The same transaction signed with key 2, which account 10 does not have.\<close>

definition ex_ptx_key2 :: project_transaction where
  "ex_ptx_key2 = ex_ptx\<lparr>tx_Signer := \<lparr>pa_Address = 20, pa_DefaultKeyIndex = 2\<rparr>\<rparr>"

definition alice :: flowkit_account where
  "alice = \<lparr>acc_name = ''alice'', acc_address = 10\<rparr>"

definition bob :: flowkit_account where
  "bob = \<lparr>acc_name = ''bob'', acc_address = 20\<rparr>"

text \<open>A configuration with the accounts \<open>alice\<close> and \<open>bob\<close>, and collaborators that
  always succeed.\<close>

definition ex_env :: send_env where
  "ex_env =
     \<lparr>ByName =
        (\<lambda>n. if n = ''alice'' then Inr alice
              else if n = ''bob'' then Inr bob
              else Inl (Errorf ''could not find account with name %s in the configuration'' [S n])),
      ReadFile = (\<lambda>f. Inr ''transaction {}''),
      ParseArgumentsJSON = (\<lambda>s. Inr []),
      ParseArgumentsWithoutType = (\<lambda>f c a. Inr []),
      NewTransactionAccountRoles =
        (\<lambda>p q a. if p = None \<or> q = None
                  then Inl (Errorf ''must provide both proposer and payer'' [])
                  else Inr \<lparr>r_proposer = p, r_payer = q, r_authorizers = a\<rparr>),
      Transactions_Send = (\<lambda>call. Inr (ex_tx, ex_sealed)),
      DefaultTransactionGasLimit = 9999\<rparr>"

definition ex_flags :: flagsSend where
  "ex_flags = \<lparr>ArgsJSON = [], Arg = [], Signer = [], Proposer = [], Payer = [],
               Autorizer = [], Include = [], Exclude = []\<rparr>"

definition ex_build :: flagsBuild where
  "ex_build = \<lparr>build_Payer = []\<rparr>"

section \<open>Loading a snapshot\<close>

text \<open>
  Claim C7. For every embedded gateway and every snapshot name absent from the snapshot
  store, \<open>LoadSnapshot\<close> returns an error and leaves the gateway as it was, so the
  backend's engine is not replaced; for a name present in the store it returns no error,
  and the backend then drives the stored engine.
\<close>

theorem C7_LoadSnapshot:
  "(snapshots g name = None \<longrightarrow>
      LoadSnapshot g name = (Some (Errorf ''Could not find snapshot with name %s'' [S name]), g)) \<and>
   (\<forall>emu. snapshots g name = Some emu \<longrightarrow>
      LoadSnapshot g name = (None, g\<lparr>backend := (backend g)\<lparr>b_emulator := emu\<rparr>\<rparr>))"
  by (simp add: LoadSnapshot_def)

theorem C7_LoadSnapshot_witness:
  "LoadSnapshot ex_gateway ''missing'' =
     (Some (Errorf ''Could not find snapshot with name %s'' [S ''missing'']), ex_gateway) \<and>
   fst (LoadSnapshot ex_gateway ''saved'') = None \<and>
   b_emulator (backend (snd (LoadSnapshot ex_gateway ''saved''))) = 7 \<and>
   b_emulator (backend ex_gateway) = 1"
  using C7_LoadSnapshot [of ex_gateway "''missing''"] C7_LoadSnapshot [of ex_gateway "''saved''"]
  by (simp add: ex_gateway_def ex_backend_def)

section \<open>Waiting for a sealed result\<close>

lemma wait_step:
  "\<not> ends_wait (poll lib g tx n) \<Longrightarrow>
   GrpcGateway_GetTransactionResult lib g tx True n =
     GrpcGateway_GetTransactionResult lib g tx True (Suc n)"
  by (subst GrpcGateway_GetTransactionResult.simps)
     (simp add: ends_wait_def poll_def split: sum.splits)

lemma wait_stop:
  "ends_wait (poll lib g tx n) \<Longrightarrow>
   GrpcGateway_GetTransactionResult lib g tx True n = Some (poll lib g tx n, Suc n)"
  by (subst GrpcGateway_GetTransactionResult.simps)
     (simp add: ends_wait_def poll_def split: sum.splits)

lemma no_wait:
  "GrpcGateway_GetTransactionResult lib g tx False n = Some (poll lib g tx n, Suc n)"
  by (subst GrpcGateway_GetTransactionResult.simps)
     (simp add: poll_def split: sum.splits)

lemma wait_returns:
  "(\<forall>i<k. \<not> ends_wait (poll lib g tx (n + i))) \<Longrightarrow> ends_wait (poll lib g tx (n + k)) \<Longrightarrow>
   GrpcGateway_GetTransactionResult lib g tx True n = Some (poll lib g tx (n + k), Suc (n + k))"
proof (induction k arbitrary: n)
  case 0
  then show ?case by (simp add: wait_stop)
next
  case (Suc k)
  have first: "\<not> ends_wait (poll lib g tx n)"
    using Suc.prems(1) by (metis add_0_right zero_less_Suc)
  have rest: "\<forall>i<k. \<not> ends_wait (poll lib g tx (Suc n + i))"
  proof (intro allI impI)
    fix i assume "i < k"
    then have "Suc i < Suc k" by simp
    then have "\<not> ends_wait (poll lib g tx (n + Suc i))" using Suc.prems(1) by blast
    then show "\<not> ends_wait (poll lib g tx (Suc n + i))" by simp
  qed
  have "GrpcGateway_GetTransactionResult lib g tx True (Suc n)
          = Some (poll lib g tx (Suc n + k), Suc (Suc n + k))"
    using rest Suc.prems(2) by (intro Suc.IH) simp_all
  then show ?case using first by (simp add: wait_step)
qed

lemma wait_some_not_forever:
  assumes "GrpcGateway_GetTransactionResult lib g tx w n = Some y"
  shows "\<not> (w \<and> (\<forall>i\<ge>n. \<not> ends_wait (poll lib g tx i)))"
proof (rule GrpcGateway_GetTransactionResult.raw_induct
         [where P = "\<lambda>lib g tx w n y. \<not> (w \<and> (\<forall>i\<ge>n. \<not> ends_wait (poll lib g tx i)))",
          OF _ assms],
       goal_cases)
  case (1 rec lib g tx w n y)
  show ?case
  proof
    assume h: "w \<and> (\<forall>i\<ge>n. \<not> ends_wait (poll lib g tx i))"
    then have w: w and nf: "\<not> ends_wait (poll lib g tx n)" by simp_all
    have "rec lib g tx w (Suc n) = Some y"
      using 1(2) w nf by (auto simp add: ends_wait_def poll_def split: sum.splits if_splits)
    from 1(1)[OF this] h show False by (meson Suc_leD)
  qed
qed

lemma wait_diverges:
  "(\<forall>i. \<not> ends_wait (poll lib g tx (n + i))) \<Longrightarrow>
   GrpcGateway_GetTransactionResult lib g tx True n = None"
proof (rule ccontr)
  assume a: "\<forall>i. \<not> ends_wait (poll lib g tx (n + i))"
     and "GrpcGateway_GetTransactionResult lib g tx True n \<noteq> None"
  then obtain y where "GrpcGateway_GetTransactionResult lib g tx True n = Some y" by blast
  from wait_some_not_forever[OF this]
  obtain i where "i \<ge> n" "ends_wait (poll lib g tx i)" by blast
  with a show False by (metis le_add_diff_inverse)
qed

lemma wait_result:
  assumes "GrpcGateway_GetTransactionResult lib g tx w n = Some y"
  shows "w \<longrightarrow> (\<exists>k. snd y = Suc (n + k) \<and> fst y = poll lib g tx (n + k) \<and> ends_wait (fst y)
           \<and> (\<forall>i<k. \<not> ends_wait (poll lib g tx (n + i))))"
proof (rule GrpcGateway_GetTransactionResult.raw_induct
         [where P = "\<lambda>lib g tx w n y. w \<longrightarrow>
             (\<exists>k. snd y = Suc (n + k) \<and> fst y = poll lib g tx (n + k) \<and> ends_wait (fst y)
                \<and> (\<forall>i<k. \<not> ends_wait (poll lib g tx (n + i))))",
          OF _ assms],
       goal_cases)
  case (1 rec lib g tx w n y)
  show ?case
  proof
    assume w: w
    show "\<exists>k. snd y = Suc (n + k) \<and> fst y = poll lib g tx (n + k) \<and> ends_wait (fst y)
           \<and> (\<forall>i<k. \<not> ends_wait (poll lib g tx (n + i)))"
    proof (cases "ends_wait (poll lib g tx n)")
      case True
      with 1(2) w have "y = (poll lib g tx n, Suc n)"
        by (auto simp add: ends_wait_def poll_def split: sum.splits if_splits)
      with True show ?thesis by (intro exI[of _ 0]) simp
    next
      case False
      with 1(2) w have "rec lib g tx w (Suc n) = Some y"
        by (auto simp add: ends_wait_def poll_def split: sum.splits if_splits)
      from 1(1)[OF this] w
      obtain k where k: "snd y = Suc (Suc n + k)" "fst y = poll lib g tx (Suc n + k)"
        "ends_wait (fst y)" "\<forall>i<k. \<not> ends_wait (poll lib g tx (Suc n + i))" by blast
      have "\<forall>i<Suc k. \<not> ends_wait (poll lib g tx (n + i))"
      proof (intro allI impI)
        fix i assume "i < Suc k"
        show "\<not> ends_wait (poll lib g tx (n + i))"
        proof (cases i)
          case 0 then show ?thesis using False by simp
        next
          case (Suc j)
          with \<open>i < Suc k\<close> have "j < k" by simp
          with k(4) have "\<not> ends_wait (poll lib g tx (Suc n + j))" by blast
          then show ?thesis using Suc by simp
        qed
      qed
      with k show ?thesis by (intro exI[of _ "Suc k"]) simp
    qed
  qed
qed

text \<open>
  Claim C1, as stated, fails. On a network where the transaction stays pending, the call
  with \<open>waitSeal\<close> set never returns. The caller has no way to signal a cancellation or a
  timeout to the gateway, so whatever it signals and after however many polls, no
  cancellation error comes back and the polling goes on.
\<close>

theorem C1_counterexample:
  "GrpcGateway_GetTransactionResult ex_lib ex_grpc_pending ex_tx True 0 = None"
proof -
  have "\<forall>i. \<not> ends_wait (poll ex_lib ex_grpc_pending ex_tx (0 + i))"
    by (simp add: ends_wait_def poll_def ex_grpc_pending_def ex_client_def ex_pending_def)
  then show ?thesis by (rule wait_diverges)
qed

text \<open>
  Claim C1, amended. With \<open>waitSeal\<close> set, the remote gateway's \<open>GetTransactionResult\<close>
  returns at the first poll answered by an error or by a sealed result: it returns that
  answer and makes no further poll. Nothing else ends the wait: when no poll is ever
  answered so, the call does not return.
\<close>

theorem C1_wait_ends_only_at_error_or_sealed:
  "(\<forall>k. (\<forall>i<k. \<not> ends_wait (poll lib g tx (n + i))) \<and> ends_wait (poll lib g tx (n + k)) \<longrightarrow>
        GrpcGateway_GetTransactionResult lib g tx True n
          = Some (poll lib g tx (n + k), Suc (n + k))) \<and>
   ((\<forall>i. \<not> ends_wait (poll lib g tx (n + i))) \<longrightarrow>
        GrpcGateway_GetTransactionResult lib g tx True n = None)"
  using wait_returns wait_diverges by blast

theorem C1_wait_witness:
  "GrpcGateway_GetTransactionResult ex_lib ex_grpc ex_tx True 0 = Some (Inr ex_sealed, Suc 2) \<and>
   GrpcGateway_GetTransactionResult ex_lib ex_grpc_finalized ex_tx True 0 = None"
proof -
  have a: "\<forall>i<2. \<not> ends_wait (poll ex_lib ex_grpc ex_tx (0 + i))"
    by (simp add: ends_wait_def poll_def ex_grpc_def ex_client_def ex_pending_def)
  have b: "ends_wait (poll ex_lib ex_grpc ex_tx (0 + 2))"
    by (simp add: ends_wait_def poll_def ex_grpc_def ex_client_def ex_sealed_def)
  have c: "\<forall>i. \<not> ends_wait (poll ex_lib ex_grpc_finalized ex_tx (0 + i))"
    by (simp add: ends_wait_def poll_def ex_grpc_finalized_def ex_client_def ex_finalized_def)
  have d: "poll ex_lib ex_grpc ex_tx (0 + 2) = Inr ex_sealed"
    by (simp add: poll_def ex_grpc_def ex_client_def)
  have "GrpcGateway_GetTransactionResult ex_lib ex_grpc ex_tx True 0
          = Some (poll ex_lib ex_grpc ex_tx (0 + 2), Suc (0 + 2))"
    using C1_wait_ends_only_at_error_or_sealed [of ex_lib ex_grpc ex_tx 0, THEN conjunct1,
            THEN spec, of 2] a b by blast
  moreover have "GrpcGateway_GetTransactionResult ex_lib ex_grpc_finalized ex_tx True 0 = None"
    using C1_wait_ends_only_at_error_or_sealed [of ex_lib ex_grpc_finalized ex_tx 0,
            THEN conjunct2] c by blast
  ultimately show ?thesis using d by simp
qed

text \<open>
  Claim C5, as stated, fails for the embedded gateway: asked to wait for the seal of a
  transaction that its backend reports as pending, it returns the pending result.
\<close>

theorem C5_counterexample:
  "EmulatorGateway_GetTransactionResult ex_lib ex_gateway 1 True =
     Inr \<lparr>Status = TransactionStatusPending, Error = None\<rparr>"
  by (simp add: EmulatorGateway_GetTransactionResult_def ex_gateway_def ex_backend_def
        ex_pending_def)

text \<open>
  Claim C5, amended. A call of the remote gateway's \<open>GetTransactionResult\<close> with
  \<open>waitSeal\<close> set that returns a result without error returns a sealed result: the answer
  of its last poll, every earlier poll having been answered by a result that was not
  sealed. The embedded gateway does not wait: it asks its backend once, whatever
  \<open>waitSeal\<close> is, and returns the backend's result with the status it has.
\<close>

theorem C5_sealed_result_remote_single_query_embedded:
  "(GrpcGateway_GetTransactionResult lib g tx True n = Some (Inr r, m) \<longrightarrow>
      Status r = TransactionStatusSealed \<and>
      (\<exists>k. m = Suc (n + k) \<and> poll lib g tx (n + k) = Inr r \<and>
           (\<forall>i<k. \<exists>r'. poll lib g tx (n + i) = Inr r' \<and> Status r' \<noteq> TransactionStatusSealed))) \<and>
   EmulatorGateway_GetTransactionResult lib eg ID True =
     EmulatorGateway_GetTransactionResult lib eg ID False \<and>
   (b_GetTransactionResult (backend eg) ID = Inr res \<longrightarrow>
      EmulatorGateway_GetTransactionResult lib eg ID waitSeal = Inr res)"
proof (intro conjI impI)
  assume a: "GrpcGateway_GetTransactionResult lib g tx True n = Some (Inr r, m)"
  from wait_result[OF a]
  obtain k where k: "m = Suc (n + k)" "Inr r = poll lib g tx (n + k)" "ends_wait (Inr r)"
    "\<forall>i<k. \<not> ends_wait (poll lib g tx (n + i))" by auto
  show "Status r = TransactionStatusSealed" using k(3) by (simp add: ends_wait_def)
  have "\<forall>i<k. \<exists>r'. poll lib g tx (n + i) = Inr r' \<and> Status r' \<noteq> TransactionStatusSealed"
  proof (intro allI impI)
    fix i assume "i < k"
    with k(4) have "\<not> ends_wait (poll lib g tx (n + i))" by blast
    then show "\<exists>r'. poll lib g tx (n + i) = Inr r' \<and> Status r' \<noteq> TransactionStatusSealed"
      by (cases "poll lib g tx (n + i)") (simp_all add: ends_wait_def)
  qed
  with k show "\<exists>k. m = Suc (n + k) \<and> poll lib g tx (n + k) = Inr r \<and>
           (\<forall>i<k. \<exists>r'. poll lib g tx (n + i) = Inr r' \<and> Status r' \<noteq> TransactionStatusSealed)"
    by (intro exI[of _ k]) simp
next
  show "EmulatorGateway_GetTransactionResult lib eg ID True =
          EmulatorGateway_GetTransactionResult lib eg ID False"
    by (simp add: EmulatorGateway_GetTransactionResult_def)
next
  assume "b_GetTransactionResult (backend eg) ID = Inr res"
  then show "EmulatorGateway_GetTransactionResult lib eg ID waitSeal = Inr res"
    by (simp add: EmulatorGateway_GetTransactionResult_def)
qed

theorem C5_witness:
  "Status ex_sealed = TransactionStatusSealed \<and>
   GrpcGateway_GetTransactionResult ex_lib ex_grpc ex_tx True 0 = Some (Inr ex_sealed, Suc 2) \<and>
   EmulatorGateway_GetTransactionResult ex_lib ex_gateway 1 False = Inr ex_pending"
proof -
  have a: "\<forall>i<2. \<not> ends_wait (poll ex_lib ex_grpc ex_tx (0 + i))"
    by (simp add: ends_wait_def poll_def ex_grpc_def ex_client_def ex_pending_def)
  have b: "ends_wait (poll ex_lib ex_grpc ex_tx (0 + 2))"
    by (simp add: ends_wait_def poll_def ex_grpc_def ex_client_def ex_sealed_def)
  have d: "poll ex_lib ex_grpc ex_tx (0 + 2) = Inr ex_sealed"
    by (simp add: poll_def ex_grpc_def ex_client_def)
  have run: "GrpcGateway_GetTransactionResult ex_lib ex_grpc ex_tx True 0 = Some (Inr ex_sealed, Suc 2)"
    using wait_returns [of 2 ex_lib ex_grpc ex_tx 0] a b d by simp
  have e: "b_GetTransactionResult (backend ex_gateway) 1 = Inr ex_pending"
    by (simp add: ex_gateway_def ex_backend_def)
  show ?thesis
    using C5_sealed_result_remote_single_query_embedded
            [of ex_lib ex_grpc ex_tx 0 ex_sealed "Suc 2" ex_gateway 1 ex_pending False] run e
    by simp
qed

section \<open>Preparing the payload of a transaction\<close>

lemma PrepareTransactionPayload_fetched:
  assumes "c_GetAccountAtLatestBlock (client g) (proposalAddress_of tx) = Inr proposer"
  shows "PrepareTransactionPayload g tx =
           (let i = pa_DefaultKeyIndex (tx_Signer tx) in
            if i < 0 \<or> int (length (Keys proposer)) \<le> i
            then Inl (Panicked (IndexOutOfRange i (length (Keys proposer))))
            else (case c_GetLatestBlockHeader (client g) True of
                    Inl err \<Rightarrow>
                      Inl (Returned (Errorf ''failed to get latest sealed block: %w'' [W err]))
                  | Inr sealed \<Rightarrow>
                      Inr (tx\<lparr>FlowTransaction := (FlowTransaction tx)
                             \<lparr>ReferenceBlockID := bh_ID sealed,
                              GasLimit := defaultGasLimit,
                              ProposalKey :=
                                \<lparr>pk_Address = proposalAddress_of tx,
                                 pk_KeyIndex = Index (Keys proposer ! nat i),
                                 pk_SequenceNumber = SequenceNumber (Keys proposer ! nat i)\<rparr>\<rparr>\<rparr>)))"
  using assms
  unfolding PrepareTransactionPayload_def GrpcGateway_GetAccount_def proposalAddress_of_def Let_def
  by simp

text \<open>
  Claim C2, as stated, fails. A staged transaction whose gas limit is already set to 9999
  leaves the preparation with the gas limit 1000.
\<close>

theorem C2_counterexample:
  "GasLimit (FlowTransaction ex_ptx) = 9999 \<and>
   PrepareTransactionPayload ex_grpc ex_ptx = Inr ex_prepared \<and>
   GasLimit (FlowTransaction ex_prepared) = 1000"
  by (simp add: PrepareTransactionPayload_def GrpcGateway_GetAccount_def Let_def
        ex_ptx_def ex_tx_def ex_grpc_def ex_client_def ex_prepared_def defaultGasLimit_def)

text \<open>
  Claim C2, amended. When the proposer's account and the latest sealed block header are
  fetched and the key index is in range, the preparation returns the transaction with its
  reference block identifier set to the identifier of the latest sealed block and its gas
  limit set to the fixed default 1000, whatever the gas limit was before; the script is
  not touched.
\<close>

theorem C2_reference_block_and_default_gas:
  assumes "c_GetAccountAtLatestBlock (client g) (proposalAddress_of tx) = Inr proposer"
      and "0 \<le> pa_DefaultKeyIndex (tx_Signer tx)"
      and "pa_DefaultKeyIndex (tx_Signer tx) < int (length (Keys proposer))"
      and "c_GetLatestBlockHeader (client g) True = Inr sealed"
  shows "\<exists>tx'. PrepareTransactionPayload g tx = Inr tx' \<and>
               ReferenceBlockID (FlowTransaction tx') = bh_ID sealed \<and>
               GasLimit (FlowTransaction tx') = 1000 \<and>
               Script (FlowTransaction tx') = Script (FlowTransaction tx)"
  using assms
  by (simp add: PrepareTransactionPayload_fetched Let_def defaultGasLimit_def)

theorem C2_witness:
  "\<exists>tx'. PrepareTransactionPayload ex_grpc ex_ptx = Inr tx' \<and>
         ReferenceBlockID (FlowTransaction tx') = 77 \<and>
         GasLimit (FlowTransaction tx') = 1000 \<and>
         Script (FlowTransaction tx') = ''transaction {}''"
proof -
  let ?acct = "\<lparr>Address = 10,
                Keys = [\<lparr>Index = 0, SequenceNumber = 40\<rparr>, \<lparr>Index = 1, SequenceNumber = 41\<rparr>]\<rparr>"
  let ?hdr = "\<lparr>bh_ID = 77, bh_Height = 12\<rparr>"
  have a: "c_GetAccountAtLatestBlock (client ex_grpc) (proposalAddress_of ex_ptx) = Inr ?acct"
    by (simp add: ex_grpc_def ex_client_def ex_ptx_def proposalAddress_of_def)
  have b: "0 \<le> pa_DefaultKeyIndex (tx_Signer ex_ptx)"
    by (simp add: ex_ptx_def)
  have c: "pa_DefaultKeyIndex (tx_Signer ex_ptx) < int (length (Keys ?acct))"
    by (simp add: ex_ptx_def)
  have d: "c_GetLatestBlockHeader (client ex_grpc) True = Inr ?hdr"
    by (simp add: ex_grpc_def ex_client_def)
  show ?thesis
    using C2_reference_block_and_default_gas [OF a b c d]
    by (simp add: ex_ptx_def ex_tx_def)
qed

text \<open>
  Claim C10. \<open>PrepareTransactionPayload\<close> indexes the keys of the fetched proposer
  account with the default key index of the transaction's signer, also when the proposer
  is another account. With the account fetched, the indexing is in range exactly when that
  index is non-negative and below the number of keys of the proposer's account; out of
  range the call panics, and in range (the sealed header fetched) the proposal key of the
  result carries the proposal address and the index and sequence number of the proposer's
  key at the signer's index.
\<close>

theorem C10_proposal_key_at_signer_index:
  assumes "c_GetAccountAtLatestBlock (client g) (proposalAddress_of tx) = Inr proposer"
      and "c_GetLatestBlockHeader (client g) True = Inr sealed"
      and "i = pa_DefaultKeyIndex (tx_Signer tx)"
  shows "(0 \<le> i \<and> i < int (length (Keys proposer)) \<longrightarrow>
            (\<exists>tx'. PrepareTransactionPayload g tx = Inr tx' \<and>
                   ProposalKey (FlowTransaction tx') =
                     \<lparr>pk_Address = proposalAddress_of tx,
                      pk_KeyIndex = Index (Keys proposer ! nat i),
                      pk_SequenceNumber = SequenceNumber (Keys proposer ! nat i)\<rparr>)) \<and>
         (\<not> (0 \<le> i \<and> i < int (length (Keys proposer))) \<longrightarrow>
            PrepareTransactionPayload g tx =
              Inl (Panicked (IndexOutOfRange i (length (Keys proposer)))))"
  using assms
  by (auto simp add: PrepareTransactionPayload_fetched Let_def)

theorem C10_witness:
  "(\<exists>tx'. PrepareTransactionPayload ex_grpc ex_ptx = Inr tx' \<and>
          ProposalKey (FlowTransaction tx') =
            \<lparr>pk_Address = 10, pk_KeyIndex = 1, pk_SequenceNumber = 41\<rparr>) \<and>
   pa_DefaultKeyIndex (tx_Signer ex_ptx) = 1 \<and>
   map_option pa_DefaultKeyIndex (tx_Proposer ex_ptx) = Some 0 \<and>
   PrepareTransactionPayload ex_grpc ex_ptx_key2 = Inl (Panicked (IndexOutOfRange 2 2))"
proof -
  let ?acct = "\<lparr>Address = 10,
                Keys = [\<lparr>Index = 0, SequenceNumber = 40\<rparr>, \<lparr>Index = 1, SequenceNumber = 41\<rparr>]\<rparr>"
  let ?hdr = "\<lparr>bh_ID = 77, bh_Height = 12\<rparr>"
  have a: "c_GetAccountAtLatestBlock (client ex_grpc) (proposalAddress_of ex_ptx) = Inr ?acct"
    by (simp add: ex_grpc_def ex_client_def ex_ptx_def proposalAddress_of_def)
  have a2: "c_GetAccountAtLatestBlock (client ex_grpc) (proposalAddress_of ex_ptx_key2) = Inr ?acct"
    by (simp add: ex_grpc_def ex_client_def ex_ptx_key2_def ex_ptx_def proposalAddress_of_def)
  have d: "c_GetLatestBlockHeader (client ex_grpc) True = Inr ?hdr"
    by (simp add: ex_grpc_def ex_client_def)
  have i1: "(1::int) = pa_DefaultKeyIndex (tx_Signer ex_ptx)"
    by (simp add: ex_ptx_def)
  have i2: "(2::int) = pa_DefaultKeyIndex (tx_Signer ex_ptx_key2)"
    by (simp add: ex_ptx_key2_def)
  show ?thesis
    using C10_proposal_key_at_signer_index [OF a d i1]
          C10_proposal_key_at_signer_index [OF a2 d i2]
    by (simp add: ex_ptx_def proposalAddress_of_def)
qed

section \<open>Resolving the roles of \<open>transactions send\<close>\<close>

lemma resolveAuthorizers_Inr:
  "list_all (\<lambda>n. \<not> isl (ByName env n)) names \<Longrightarrow>
   resolveAuthorizers env names acc = Inr (acc @ map (\<lambda>n. projr (ByName env n)) names)"
proof (induction names arbitrary: acc)
  case Nil
  then show ?case by simp
next
  case (Cons n names)
  then obtain a where a: "ByName env n = Inr a"
    by (cases "ByName env n") simp_all
  with Cons show ?case by simp
qed

lemma resolveAuthorizers_Inl:
  "resolveAuthorizers env names acc = Inl e \<Longrightarrow>
   \<exists>n \<in> set names. isl (ByName env n) \<and>
      e = Errorf ''authorizer account: [%s] doesn't exists in configuration'' [S n]"
proof (induction names arbitrary: acc)
  case Nil
  then show ?case by simp
next
  case (Cons n names)
  show ?case
  proof (cases "ByName env n")
    case (Inl err)
    with Cons.prems show ?thesis by auto
  next
    case (Inr a)
    with Cons.prems have "resolveAuthorizers env names (acc @ [a]) = Inl e" by simp
    from Cons.IH[OF this] show ?thesis by auto
  qed
qed

lemma resolveAuthorizers_length:
  "resolveAuthorizers env names acc = Inr r \<Longrightarrow> length r = length acc + length names"
proof (induction names arbitrary: acc)
  case Nil
  then show ?case by simp
next
  case (Cons n names)
  then show ?case by (cases "ByName env n") auto
qed

lemma resolveRoles_staged:
  "resolveRoles env sendFlags buildFlags =
     (case lookup_role env ''proposer account: [%s] doesn't exists in configuration''
             (Proposer sendFlags) of
        Inl e \<Rightarrow> Inl e
      | Inr proposer \<Rightarrow>
     (case lookup_role env ''payer account: [%s] doesn't exists in configuration''
             (build_Payer buildFlags) of
        Inl e \<Rightarrow> Inl e
      | Inr payer \<Rightarrow>
     (case resolveAuthorizers env (Autorizer sendFlags) [] of
        Inl e \<Rightarrow> Inl e
      | Inr authorizers \<Rightarrow>
     (if Signer sendFlags \<noteq> []
      then
        (if proposer \<noteq> None \<or> payer \<noteq> None \<or> length authorizers > 0
         then Inl role_conflict
         else
           (case ByName env (Signer sendFlags) of
              Inl err \<Rightarrow>
                Inl (Errorf ''signer account: [%s] doesn't exists in configuration''
                       [S (Signer sendFlags)])
            | Inr signer \<Rightarrow>
                Inr \<lparr>r_proposer = Some signer, r_payer = Some signer,
                     r_authorizers = authorizers @ [signer]\<rparr>))
      else Inr \<lparr>r_proposer = proposer, r_payer = payer, r_authorizers = authorizers\<rparr>))))"
  unfolding resolveRoles_def lookup_role_def Let_def role_conflict_def ..

lemma lookup_role_Inl:
  "lookup_role env format roleName = Inl e \<Longrightarrow>
   roleName \<noteq> [] \<and> isl (ByName env roleName) \<and> e = Errorf format [S roleName]"
  by (auto simp add: lookup_role_def split: if_splits sum.splits)

lemma lookup_role_Inr:
  "lookup_role env format roleName = Inr r \<Longrightarrow>
   (roleName = [] \<and> r = None) \<or> (roleName \<noteq> [] \<and> ByName env roleName = Inr (the r) \<and> r \<noteq> None)"
  by (auto simp add: lookup_role_def split: if_splits sum.splits)

lemma resolveRoles_signer_combined:
  assumes s: "Signer sendFlags \<noteq> []"
      and c: "Proposer sendFlags \<noteq> [] \<or> Autorizer sendFlags \<noteq> []"
  shows "\<exists>e. resolveRoles env sendFlags buildFlags = Inl e \<and>
             (e = role_conflict \<or> unresolved_name e) \<and>
             (names_resolve env sendFlags buildFlags \<longrightarrow> e = role_conflict)"
proof (cases "lookup_role env ''proposer account: [%s] doesn't exists in configuration''
                (Proposer sendFlags)")
  case (Inl e)
  from lookup_role_Inl[OF Inl]
  have e: "Proposer sendFlags \<noteq> []" "isl (ByName env (Proposer sendFlags))"
    "e = Errorf ''proposer account: [%s] doesn't exists in configuration'' [S (Proposer sendFlags)]"
    by simp_all
  have "resolveRoles env sendFlags buildFlags = Inl e"
    by (simp add: resolveRoles_staged Inl)
  moreover have "unresolved_name e" using e(3) by simp
  moreover have "\<not> names_resolve env sendFlags buildFlags"
    using e(1,2) by (simp add: names_resolve_def)
  ultimately show ?thesis by blast
next
  case P: (Inr proposer)
  from lookup_role_Inr[OF P] have pn: "Proposer sendFlags \<noteq> [] \<longrightarrow> proposer \<noteq> None" by auto
  show ?thesis
  proof (cases "lookup_role env ''payer account: [%s] doesn't exists in configuration''
                  (build_Payer buildFlags)")
    case (Inl e)
    from lookup_role_Inl[OF Inl]
    have e: "build_Payer buildFlags \<noteq> []" "isl (ByName env (build_Payer buildFlags))"
      "e = Errorf ''payer account: [%s] doesn't exists in configuration'' [S (build_Payer buildFlags)]"
      by simp_all
    have "resolveRoles env sendFlags buildFlags = Inl e"
      by (simp add: resolveRoles_staged P Inl)
    moreover have "unresolved_name e" using e(3) by simp
    moreover have "\<not> names_resolve env sendFlags buildFlags"
      using e(1,2) by (simp add: names_resolve_def)
    ultimately show ?thesis by blast
  next
    case Q: (Inr payer)
    show ?thesis
    proof (cases "resolveAuthorizers env (Autorizer sendFlags) []")
      case (Inl e)
      from resolveAuthorizers_Inl[OF Inl] obtain n where
        n: "n \<in> set (Autorizer sendFlags)" "isl (ByName env n)"
           "e = Errorf ''authorizer account: [%s] doesn't exists in configuration'' [S n]"
        by blast
      have "resolveRoles env sendFlags buildFlags = Inl e"
        by (simp add: resolveRoles_staged P Q Inl)
      moreover have "unresolved_name e" using n(3) by simp
      moreover have "\<not> names_resolve env sendFlags buildFlags"
        using n(1,2) by (auto simp add: names_resolve_def list_all_iff)
      ultimately show ?thesis by blast
    next
      case R: (Inr authorizers)
      from resolveAuthorizers_length[OF R]
      have "length authorizers = length (Autorizer sendFlags)" by simp
      with c pn have "proposer \<noteq> None \<or> payer \<noteq> None \<or> length authorizers > 0" by auto
      then have "resolveRoles env sendFlags buildFlags = Inl role_conflict"
        using s by (simp add: resolveRoles_staged P Q R)
      then show ?thesis by simp
    qed
  qed
qed

lemma resolveAuthorizers_exact:
  "resolveAuthorizers env names acc =
     (case find (\<lambda>n. isl (ByName env n)) names of
        Some n \<Rightarrow> Inl (Errorf ''authorizer account: [%s] doesn't exists in configuration'' [S n])
      | None \<Rightarrow> Inr (acc @ map (\<lambda>n. projr (ByName env n)) names))"
proof (induction names arbitrary: acc)
  case Nil
  then show ?case by simp
next
  case (Cons n names)
  show ?case
  proof (cases "ByName env n")
    case (Inl err)
    then show ?thesis by simp
  next
    case (Inr a)
    then show ?thesis by (simp add: Cons.IH split: option.splits)
  qed
qed

lemma lookup_role_exact:
  "lookup_role env format roleName =
     (if roleName \<noteq> [] \<and> isl (ByName env roleName)
      then Inl (Errorf format [S roleName])
      else Inr (if roleName = [] then None else Some (projr (ByName env roleName))))"
  by (cases "ByName env roleName") (simp_all add: lookup_role_def)

lemma names_resolve_iff: 
  "names_resolve env sendFlags buildFlags \<longleftrightarrow> first_unresolved env sendFlags buildFlags = None"
proof -
  have a: "list_all (\<lambda>n. \<not> isl (ByName env n)) (Autorizer sendFlags) \<longleftrightarrow>
           find (\<lambda>n. isl (ByName env n)) (Autorizer sendFlags) = None"
    by (auto simp add: find_None_iff list_all_iff)
  show ?thesis
    unfolding names_resolve_def first_unresolved_def a
    by (auto split: option.splits)
qed

lemma resolveRoles_signer_exact:
  assumes s: "Signer sendFlags \<noteq> []"
      and c: "Proposer sendFlags \<noteq> [] \<or> Autorizer sendFlags \<noteq> []"
  shows "resolveRoles env sendFlags buildFlags =
           Inl (case first_unresolved env sendFlags buildFlags of
                  Some err \<Rightarrow> err
                | None \<Rightarrow> role_conflict)"
proof (cases "Proposer sendFlags \<noteq> [] \<and> isl (ByName env (Proposer sendFlags))")
  case True
  then show ?thesis
    by (simp add: resolveRoles_staged lookup_role_exact first_unresolved_def)
next
  case P: False
  show ?thesis
  proof (cases "build_Payer buildFlags \<noteq> [] \<and> isl (ByName env (build_Payer buildFlags))")
    case True
    with P show ?thesis
      by (simp add: resolveRoles_staged lookup_role_exact first_unresolved_def)
  next
    case Q: False
    show ?thesis
    proof (cases "find (\<lambda>n. isl (ByName env n)) (Autorizer sendFlags)")
      case (Some n)
      with P Q show ?thesis
        by (simp add: resolveRoles_staged lookup_role_exact resolveAuthorizers_exact
              first_unresolved_def)
    next
      case None
      with P Q s c show ?thesis
        by (auto simp add: resolveRoles_staged lookup_role_exact resolveAuthorizers_exact
              first_unresolved_def)
    qed
  qed
qed

text \<open>
  Claim C3, as stated, fails. With the signer \<open>alice\<close> and a proposer name that the
  configuration does not have, \<open>send\<close> fails on the lookup of the proposer, which comes
  before the signer check: the error names the proposer and is not the role conflict.
\<close>

theorem C3_counterexample:
  "send ex_env (ex_flags\<lparr>Signer := ''alice'', Proposer := ''ghost''\<rparr>) ex_build ''emulator''
        [''tx.cdc'']
     = (Inl (Returned (Errorf ''proposer account: [%s] doesn't exists in configuration''
                         [S ''ghost''])), []) \<and>
   Errorf ''proposer account: [%s] doesn't exists in configuration'' [S ''ghost'']
     \<noteq> role_conflict"
  by (simp add: send_def resolveRoles_def Let_def ex_env_def ex_flags_def ex_build_def
        role_conflict_def)

text \<open>
  Claim C3, amended. For every role input in which the signer name is set together with
  the proposer name or a non-empty authorizer list, \<open>send\<close> fails and no transaction is
  built or submitted. The account names are looked up before the signer check, in the
  order proposer, payer, authorizers from left to right: when every name looked up is in
  the configuration the error is the role conflict, and otherwise it is the error naming
  the role and the name of the first lookup that fails.
\<close>

theorem C3_signer_with_proposer_or_authorizers:
  assumes "Signer sendFlags \<noteq> []"
      and "Proposer sendFlags \<noteq> [] \<or> Autorizer sendFlags \<noteq> []"
  shows "\<exists>e. resolveRoles env sendFlags buildFlags = Inl e \<and>
             send env sendFlags buildFlags network (codeFilename # rest) = (Inl (Returned e), []) \<and>
             (e = role_conflict \<or> unresolved_name e) \<and>
             (names_resolve env sendFlags buildFlags \<longrightarrow> e = role_conflict) \<and>
             e = (case first_unresolved env sendFlags buildFlags of
                    Some err \<Rightarrow> err
                  | None \<Rightarrow> role_conflict) \<and>
             (first_unresolved env sendFlags buildFlags = None
                \<longleftrightarrow> names_resolve env sendFlags buildFlags)"
proof -
  let ?e = "case first_unresolved env sendFlags buildFlags of
              Some err \<Rightarrow> err
            | None \<Rightarrow> role_conflict"
  have r: "resolveRoles env sendFlags buildFlags = Inl ?e"
    using assms by (rule resolveRoles_signer_exact)
  from resolveRoles_signer_combined[OF assms, of env buildFlags] r
  have k: "(?e = role_conflict \<or> unresolved_name ?e) \<and>
           (names_resolve env sendFlags buildFlags \<longrightarrow> ?e = role_conflict)"
    by auto
  have t: "send env sendFlags buildFlags network (codeFilename # rest) = (Inl (Returned ?e), [])"
    by (simp add: send_def r)
  note n = names_resolve_iff[of env sendFlags buildFlags]
  show ?thesis
    by (rule exI[of _ ?e]) (use r k t n in simp)
qed

theorem C3_witness:
  "send ex_env (ex_flags\<lparr>Signer := ''alice'', Proposer := ''bob''\<rparr>) ex_build ''emulator''
        [''tx.cdc''] = (Inl (Returned role_conflict), []) \<and>
   send ex_env (ex_flags\<lparr>Signer := ''alice'', Autorizer := [''bob'', ''alice'']\<rparr>) ex_build
        ''emulator'' [''tx.cdc''] = (Inl (Returned role_conflict), []) \<and>
   send ex_env (ex_flags\<lparr>Signer := ''alice'', Autorizer := [''bob'', ''ghost'', ''phantom'']\<rparr>)
        ex_build ''emulator'' [''tx.cdc'']
     = (Inl (Returned (Errorf ''authorizer account: [%s] doesn't exists in configuration''
                         [S ''ghost''])), [])"
proof -
  let ?f1 = "ex_flags\<lparr>Signer := ''alice'', Proposer := ''bob''\<rparr>"
  let ?f2 = "ex_flags\<lparr>Signer := ''alice'', Autorizer := [''bob'', ''alice'']\<rparr>"
  let ?f3 = "ex_flags\<lparr>Signer := ''alice'', Autorizer := [''bob'', ''ghost'', ''phantom'']\<rparr>"
  have s1: "Signer ?f1 \<noteq> []" and c1: "Proposer ?f1 \<noteq> [] \<or> Autorizer ?f1 \<noteq> []"
    by simp_all
  have s2: "Signer ?f2 \<noteq> []" and c2: "Proposer ?f2 \<noteq> [] \<or> Autorizer ?f2 \<noteq> []"
    by simp_all
  have s3: "Signer ?f3 \<noteq> []" and c3: "Proposer ?f3 \<noteq> [] \<or> Autorizer ?f3 \<noteq> []"
    by simp_all
  have n1: "names_resolve ex_env ?f1 ex_build"
    by (simp add: names_resolve_def ex_env_def ex_flags_def ex_build_def)
  have n2: "names_resolve ex_env ?f2 ex_build"
    by (simp add: names_resolve_def ex_env_def ex_flags_def ex_build_def)
  have n3: "first_unresolved ex_env ?f3 ex_build =
              Some (Errorf ''authorizer account: [%s] doesn't exists in configuration''
                      [S ''ghost''])"
    by (simp add: first_unresolved_def ex_env_def ex_flags_def ex_build_def)
  from C3_signer_with_proposer_or_authorizers
         [OF s1 c1, of ex_env ex_build "''emulator''" "''tx.cdc''" "[]"] n1
  have "send ex_env ?f1 ex_build ''emulator'' [''tx.cdc''] = (Inl (Returned role_conflict), [])"
    by auto
  moreover
  from C3_signer_with_proposer_or_authorizers
         [OF s2 c2, of ex_env ex_build "''emulator''" "''tx.cdc''" "[]"] n2
  have "send ex_env ?f2 ex_build ''emulator'' [''tx.cdc''] = (Inl (Returned role_conflict), [])"
    by auto
  moreover
  from C3_signer_with_proposer_or_authorizers
         [OF s3 c3, of ex_env ex_build "''emulator''" "''tx.cdc''" "[]"] n3
  have "send ex_env ?f3 ex_build ''emulator'' [''tx.cdc'']
          = (Inl (Returned (Errorf ''authorizer account: [%s] doesn't exists in configuration''
                              [S ''ghost''])), [])"
    by auto
  ultimately show ?thesis by simp
qed

text \<open>
  When the signer name is set and resolves, and no other name is looked up, the signer
  takes every role; and whenever the signer name is set and the resolution succeeds, these
  are the roles.
\<close>

lemma signer_takes_every_role:
  assumes "Signer sendFlags \<noteq> []"
      and "ByName env (Signer sendFlags) = Inr account"
  shows "(Proposer sendFlags = [] \<and> Autorizer sendFlags = [] \<and> build_Payer buildFlags = [] \<longrightarrow>
            resolveRoles env sendFlags buildFlags =
              Inr \<lparr>r_proposer = Some account, r_payer = Some account,
                   r_authorizers = [account]\<rparr>) \<and>
         (\<forall>r. resolveRoles env sendFlags buildFlags = Inr r \<longrightarrow>
            r = \<lparr>r_proposer = Some account, r_payer = Some account,
                 r_authorizers = [account]\<rparr>)"
proof (intro conjI allI impI)
  assume "Proposer sendFlags = [] \<and> Autorizer sendFlags = [] \<and> build_Payer buildFlags = []"
  with assms show "resolveRoles env sendFlags buildFlags =
              Inr \<lparr>r_proposer = Some account, r_payer = Some account,
                   r_authorizers = [account]\<rparr>"
    by (simp add: resolveRoles_staged lookup_role_def)
next
  fix r assume "resolveRoles env sendFlags buildFlags = Inr r"
  with assms show "r = \<lparr>r_proposer = Some account, r_payer = Some account,
                 r_authorizers = [account]\<rparr>"
    by (auto simp add: resolveRoles_staged split: sum.splits if_splits)
qed

text \<open>
  Claim C4, evaluated at a failing input. Among the role flags of \<open>send\<close> only the signer
  name \<open>alice\<close> is set, and \<open>alice\<close> is in the configuration; the flag variable of the
  command \<open>build\<close> holds the payer name \<open>bob\<close>. \<open>send\<close> reads that name, looks up \<open>bob\<close>
  as payer and then refuses the signer: it returns the role conflict and hands on no
  roles, where the claim has \<open>alice\<close> as proposer, as payer and as the single authorizer.
\<close>

theorem C4_signer_alone_refused_by_payer_of_build:
  "Signer (ex_flags\<lparr>Signer := ''alice''\<rparr>) = ''alice'' \<and>
   Proposer (ex_flags\<lparr>Signer := ''alice''\<rparr>) = [] \<and>
   Payer (ex_flags\<lparr>Signer := ''alice''\<rparr>) = [] \<and>
   Autorizer (ex_flags\<lparr>Signer := ''alice''\<rparr>) = [] \<and>
   ByName ex_env ''alice'' = Inr alice \<and>
   resolveRoles ex_env (ex_flags\<lparr>Signer := ''alice''\<rparr>) (ex_build\<lparr>build_Payer := ''bob''\<rparr>)
     = Inl role_conflict \<and>
   send ex_env (ex_flags\<lparr>Signer := ''alice''\<rparr>) (ex_build\<lparr>build_Payer := ''bob''\<rparr>)
        ''emulator'' [''tx.cdc'']
     = (Inl (Returned role_conflict), [])"
  by (simp add: send_def resolveRoles_def Let_def ex_env_def ex_flags_def ex_build_def
        role_conflict_def)

theorem C4_witness:
  "resolveRoles ex_env (ex_flags\<lparr>Signer := ''alice''\<rparr>) (ex_build\<lparr>build_Payer := ''bob''\<rparr>)
     \<noteq> Inr \<lparr>r_proposer = Some alice, r_payer = Some alice, r_authorizers = [alice]\<rparr>"
  using C4_signer_alone_refused_by_payer_of_build by simp

text \<open>
  Claim C9, evaluated at a failing input. The signer is not set and the caller supplies
  the payer name \<open>ghost\<close>, which the configuration does not have. \<open>send\<close> reads the payer
  name of \<open>buildFlags\<close>, which is empty, so it looks up no payer at all: the resolution
  succeeds with no payer instead of failing with an error that names the payer \<open>ghost\<close>,
  and the flow goes on to build the role set.
\<close>

theorem C9_payer_name_of_send_not_read:
  "isl (ByName ex_env ''ghost'') \<and>
   resolveRoles ex_env (ex_flags\<lparr>Payer := ''ghost''\<rparr>) ex_build =
     Inr \<lparr>r_proposer = None, r_payer = None, r_authorizers = []\<rparr> \<and>
   resolveRoles ex_env (ex_flags\<lparr>Payer := ''ghost''\<rparr>) (ex_build\<lparr>build_Payer := ''ghost''\<rparr>) =
     Inl (Errorf ''payer account: [%s] doesn't exists in configuration'' [S ''ghost''])"
  by (simp add: resolveRoles_def Let_def ex_env_def ex_flags_def ex_build_def)

theorem C9_witness:
  "resolveRoles ex_env (ex_flags\<lparr>Payer := ''ghost''\<rparr>) ex_build \<noteq>
     Inl (Errorf ''payer account: [%s] doesn't exists in configuration'' [S ''ghost''])"
  using C9_payer_name_of_send_not_read by simp

section \<open>Events of a height range\<close>

lemma unat_succ_below:
  fixes height endHeight :: "64 word"
  assumes "height \<le> endHeight" "endHeight \<noteq> - 1"
  shows "unat (height + 1) = Suc (unat height)"
proof -
  have "height \<noteq> - 1" using assms by (metis word_order.extremum_unique)
  then have "1 + height \<noteq> 0" by (metis add.commute add_eq_0_iff)
  then have "unat (1 + height) = Suc (unat height)" by (rule unatSuc)
  then show ?thesis by (simp add: add.commute)
qed

lemma GetEvents_loop_run:
  fixes height endHeight :: "64 word"
  assumes "endHeight \<noteq> - 1"
      and "k = Suc (unat endHeight) - unat height"
      and "unat height \<le> Suc (unat endHeight)"
      and "\<forall>h. height \<le> h \<and> h \<le> endHeight \<longrightarrow> getBlockEvent lib g h ty = Inr (f h)"
  shows "GetEvents_loop lib g ty height endHeight events =
           Some (Inr (events @ map (\<lambda>i. f (height + of_nat i)) [0..<k]))"
  using assms(2-4)
proof (induction k arbitrary: height events)
  case 0
  then have "unat height = Suc (unat endHeight)" by simp
  then have "\<not> height \<le> endHeight" by (simp add: word_le_nat_alt)
  then show ?case by (subst GetEvents_loop.simps) simp
next
  case (Suc k)
  then have le: "height \<le> endHeight" by (simp add: word_le_nat_alt)
  have un: "unat (height + 1) = Suc (unat height)"
    using le assms(1) by (rule unat_succ_below)
  have here: "getBlockEvent lib g height ty = Inr (f height)"
    using Suc.prems(3) le by simp
  have later: "\<forall>h. height + 1 \<le> h \<and> h \<le> endHeight \<longrightarrow> getBlockEvent lib g h ty = Inr (f h)"
  proof (intro allI impI)
    fix h assume h: "height + 1 \<le> h \<and> h \<le> endHeight"
    then have "unat height \<le> unat h" using un by (simp add: word_le_nat_alt)
    then have "height \<le> h" by (simp add: word_le_nat_alt)
    with h Suc.prems(3) show "getBlockEvent lib g h ty = Inr (f h)" by simp
  qed
  have "GetEvents_loop lib g ty (height + 1) endHeight (events @ [f height]) =
          Some (Inr ((events @ [f height]) @ map (\<lambda>i. f (height + 1 + of_nat i)) [0..<k]))"
  proof (rule Suc.IH)
    show "k = Suc (unat endHeight) - unat (height + 1)" using Suc.prems(1) un by simp
    show "unat (height + 1) \<le> Suc (unat endHeight)" using le un by (simp add: word_le_nat_alt)
    show "\<forall>h. height + 1 \<le> h \<and> h \<le> endHeight \<longrightarrow> getBlockEvent lib g h ty = Inr (f h)"
      by (rule later)
  qed
  moreover have "map (\<lambda>i. f (height + of_nat i)) [0..<Suc k]
                   = f height # map (\<lambda>i. f (height + 1 + of_nat i)) [0..<k]"
  proof -
    have "[0..<Suc k] = 0 # map Suc [0..<k]"
      by (simp add: upt_conv_Cons map_Suc_upt del: upt_Suc)
    then show ?thesis by (simp add: o_def add.assoc del: upt_Suc)
  qed
  ultimately show ?case using le here
    by (subst GetEvents_loop.simps) (simp del: upt_Suc)
qed

lemma GetEvents_loop_some:
  assumes "GetEvents_loop lib g ty height endHeight events = Some y"
  shows "\<not> (endHeight = - 1 \<and> (\<forall>h. \<exists>e. getBlockEvent lib g h ty = Inr e))"
proof (rule GetEvents_loop.raw_induct
         [where P = "\<lambda>lib g ty height endHeight events y.
                       \<not> (endHeight = - 1 \<and> (\<forall>h. \<exists>e. getBlockEvent lib g h ty = Inr e))",
          OF _ assms],
       goal_cases)
  case (1 rec lib g ty height endHeight events y)
  show ?case
  proof
    assume h: "endHeight = - 1 \<and> (\<forall>h. \<exists>e. getBlockEvent lib g h ty = Inr e)"
    then obtain e where e: "getBlockEvent lib g height ty = Inr e" by blast
    have "height \<le> endHeight" using h by simp
    with 1(2) e have "rec lib g ty (height + 1) endHeight (events @ [e]) = Some y" by simp
    from 1(1)[OF this] h show False by blast
  qed
qed

text \<open>With a block at every height and the largest \<open>uint64\<close> as end of the range, the
  loop condition never fails and the call does not return.\<close>

lemma GetEvents_to_max_height_diverges:
  assumes "\<forall>h. \<exists>block. b_GetBlockByHeight (backend g) h = Inr block"
  shows "EmulatorGateway_GetEvents lib g ty startHeight (- 1) = None"
proof (rule ccontr)
  assume "EmulatorGateway_GetEvents lib g ty startHeight (- 1) \<noteq> None"
  then obtain y where "GetEvents_loop lib g ty startHeight (- 1) [] = Some y"
    by (auto simp add: EmulatorGateway_GetEvents_def)
  from GetEvents_loop_some[OF this]
  obtain h where h: "\<forall>e. getBlockEvent lib g h ty \<noteq> Inr e" by blast
  from assms obtain block where "b_GetBlockByHeight (backend g) h = Inr block" by blast
  then have "\<exists>e. getBlockEvent lib g h ty = Inr e"
    by (simp add: getBlockEvent_def Let_def split: option.splits)
  with h show False by blast
qed

lemma getBlockEvent_block:
  assumes "b_GetBlockByHeight (backend g) h = Inr block"
  shows "\<exists>e. getBlockEvent lib g h ty = Inr e \<and>
             BlockID e = fg_ID block \<and> be_Height e = fg_Height block \<and>
             BlockTimestamp e = fg_Timestamp block \<and>
             (no_matching_events g ty block \<and> FlowEventsToSDK lib [] = Inr [] \<longrightarrow>
                Events e = Some [])"
  using assms
  by (auto simp add: getBlockEvent_def no_matching_events_def Let_def
        split: option.splits sum.splits)

text \<open>
  Claim C6, as stated, fails. The engine has blocks at the heights 0 to 3 only; asked for
  the events of the range from 5 to 5, the embedded gateway dereferences the nil block of
  height 5 and panics instead of returning one entry.
\<close>

theorem C6_counterexample:
  "EmulatorGateway_GetEvents ex_lib ex_gateway ''A.Ev'' 5 5 = Some (Inl NilPointerDereference)"
  by (subst EmulatorGateway_GetEvents_def, subst GetEvents_loop.simps)
     (simp add: getBlockEvent_def ex_gateway_def ex_backend_def)

text \<open>
  Claim C6, amended. For every event type and every height range with
  \<open>startHeight \<le> endHeight\<close>, \<open>endHeight\<close> below the largest \<open>uint64\<close>, in which the
  backend has a block at every height, the embedded gateway's \<open>GetEvents\<close> returns exactly
  one batch per height of the range, in ascending order of the heights: the batch at
  position \<open>i\<close> is the one of the block at height \<open>startHeight + i\<close>, with that block's
  identifier, height and timestamp. A block with no matching events yields a batch whose
  event list is empty and not absent, given that the event conversion maps no events to
  the empty list.
\<close>

theorem C6_one_batch_per_height:
  fixes startHeight endHeight :: "64 word"
  assumes "startHeight \<le> endHeight"
      and "endHeight \<noteq> - 1"
      and "\<forall>h. startHeight \<le> h \<and> h \<le> endHeight \<longrightarrow> \<not> isl (b_GetBlockByHeight (backend g) h)"
  shows "\<exists>batches.
           EmulatorGateway_GetEvents lib g eventType startHeight endHeight = Some (Inr batches) \<and>
           length batches = Suc (unat endHeight - unat startHeight) \<and>
           (\<forall>i < length batches.
              getBlockEvent lib g (startHeight + of_nat i) eventType = Inr (batches ! i) \<and>
              (\<exists>block. b_GetBlockByHeight (backend g) (startHeight + of_nat i) = Inr block \<and>
                 BlockID (batches ! i) = fg_ID block \<and>
                 be_Height (batches ! i) = fg_Height block \<and>
                 BlockTimestamp (batches ! i) = fg_Timestamp block \<and>
                 (no_matching_events g eventType block \<and> FlowEventsToSDK lib [] = Inr [] \<longrightarrow>
                    Events (batches ! i) = Some [])))"
proof -
  define f where "f h = projr (getBlockEvent lib g h eventType)" for h
  define k where "k = Suc (unat endHeight) - unat startHeight"
  have le: "unat startHeight \<le> unat endHeight"
    using assms(1) by (simp add: word_le_nat_alt)
  have k: "k = Suc (unat endHeight - unat startHeight)"
    using le by (simp add: k_def)
  have ok: "\<forall>h. startHeight \<le> h \<and> h \<le> endHeight \<longrightarrow> getBlockEvent lib g h eventType = Inr (f h)"
  proof (intro allI impI)
    fix h assume "startHeight \<le> h \<and> h \<le> endHeight"
    with assms(3) obtain block where "b_GetBlockByHeight (backend g) h = Inr block"
      by (cases "b_GetBlockByHeight (backend g) h") auto
    from getBlockEvent_block[OF this, of lib eventType]
    show "getBlockEvent lib g h eventType = Inr (f h)" by (auto simp add: f_def)
  qed
  have run: "EmulatorGateway_GetEvents lib g eventType startHeight endHeight =
               Some (Inr (map (\<lambda>i. f (startHeight + of_nat i)) [0..<k]))"
    using GetEvents_loop_run[OF assms(2) k_def _ ok, of "[]"] le
    by (simp add: EmulatorGateway_GetEvents_def)
  have each: "getBlockEvent lib g (startHeight + of_nat i) eventType = Inr (f (startHeight + of_nat i)) \<and>
              (\<exists>block. b_GetBlockByHeight (backend g) (startHeight + of_nat i) = Inr block \<and>
                 BlockID (f (startHeight + of_nat i)) = fg_ID block \<and>
                 be_Height (f (startHeight + of_nat i)) = fg_Height block \<and>
                 BlockTimestamp (f (startHeight + of_nat i)) = fg_Timestamp block \<and>
                 (no_matching_events g eventType block \<and> FlowEventsToSDK lib [] = Inr [] \<longrightarrow>
                    Events (f (startHeight + of_nat i)) = Some []))"
    if i: "i < k" for i
  proof -
    have bound: "unat startHeight + i \<le> unat endHeight" using i k le by simp
    have "unat endHeight < 2 ^ 64" using unsigned_less[of endHeight] by simp
    with bound have small: "unat startHeight + i < 2 ^ 64" by simp
    then have un: "unat (startHeight + of_nat i) = unat startHeight + i"
      by (simp add: unat_word_ariths unat_of_nat)
    have inrange: "startHeight \<le> startHeight + of_nat i \<and> startHeight + of_nat i \<le> endHeight"
      using un bound by (simp add: word_le_nat_alt)
    with assms(3) obtain block where
      b: "b_GetBlockByHeight (backend g) (startHeight + of_nat i) = Inr block"
      by (cases "b_GetBlockByHeight (backend g) (startHeight + of_nat i)") auto
    from getBlockEvent_block[OF b, of lib eventType] ok inrange b
    show ?thesis by auto
  qed
  show ?thesis
  proof (intro exI[of _ "map (\<lambda>i. f (startHeight + of_nat i)) [0..<k]"] conjI allI impI)
    show "EmulatorGateway_GetEvents lib g eventType startHeight endHeight =
            Some (Inr (map (\<lambda>i. f (startHeight + of_nat i)) [0..<k]))" by (rule run)
    show "length (map (\<lambda>i. f (startHeight + of_nat i)) [0..<k]) = Suc (unat endHeight - unat startHeight)"
      using k by simp
  next
    fix i assume "i < length (map (\<lambda>i. f (startHeight + of_nat i)) [0..<k])"
    then have i: "i < k" by simp
    then have nth: "map (\<lambda>i. f (startHeight + of_nat i)) [0..<k] ! i = f (startHeight + of_nat i)"
      by simp
    from each[OF i]
    show "getBlockEvent lib g (startHeight + of_nat i) eventType =
            Inr (map (\<lambda>i. f (startHeight + of_nat i)) [0..<k] ! i)"
      unfolding nth by blast
    from each[OF i]
    show "\<exists>block. b_GetBlockByHeight (backend g) (startHeight + of_nat i) = Inr block \<and>
                 BlockID (map (\<lambda>i. f (startHeight + of_nat i)) [0..<k] ! i) = fg_ID block \<and>
                 be_Height (map (\<lambda>i. f (startHeight + of_nat i)) [0..<k] ! i) = fg_Height block \<and>
                 BlockTimestamp (map (\<lambda>i. f (startHeight + of_nat i)) [0..<k] ! i) = fg_Timestamp block \<and>
                 (no_matching_events g eventType block \<and> FlowEventsToSDK lib [] = Inr [] \<longrightarrow>
                    Events (map (\<lambda>i. f (startHeight + of_nat i)) [0..<k] ! i) = Some [])"
      unfolding nth by blast
  qed
qed
theorem C6_witness:
  "\<exists>batches. EmulatorGateway_GetEvents ex_lib ex_gateway ''A.Ev'' 2 2 = Some (Inr batches) \<and>
      length batches = 1 \<and> BlockID (batches ! 0) = 102 \<and> be_Height (batches ! 0) = 2 \<and>
      Events (batches ! 0) = Some []"
proof -
  have a: "(2::64 word) \<le> 2" by simp
  have b: "(2::64 word) \<noteq> - 1" by simp
  have c: "\<forall>h. (2::64 word) \<le> h \<and> h \<le> 2 \<longrightarrow> \<not> isl (b_GetBlockByHeight (backend ex_gateway) h)"
  proof (intro allI impI)
    fix h :: "64 word" assume "2 \<le> h \<and> h \<le> 2"
    then have "h = 2" by (meson order.antisym)
    then show "\<not> isl (b_GetBlockByHeight (backend ex_gateway) h)"
      by (simp add: ex_gateway_def ex_backend_def)
  qed
  from C6_one_batch_per_height [OF a b c, of ex_lib "''A.Ev''"]
  obtain batches where r: "EmulatorGateway_GetEvents ex_lib ex_gateway ''A.Ev'' 2 2 = Some (Inr batches)"
    and l: "length batches = Suc (unat (2::64 word) - unat (2::64 word))"
    and e: "\<forall>i < length batches.
              getBlockEvent ex_lib ex_gateway (2 + of_nat i) ''A.Ev'' = Inr (batches ! i) \<and>
              (\<exists>block. b_GetBlockByHeight (backend ex_gateway) (2 + of_nat i) = Inr block \<and>
                 BlockID (batches ! i) = fg_ID block \<and>
                 be_Height (batches ! i) = fg_Height block \<and>
                 BlockTimestamp (batches ! i) = fg_Timestamp block \<and>
                 (no_matching_events ex_gateway ''A.Ev'' block \<and> FlowEventsToSDK ex_lib [] = Inr [] \<longrightarrow>
                    Events (batches ! i) = Some []))"
    by blast
  from l have l1: "length batches = 1" by simp
  have blk: "b_GetBlockByHeight (backend ex_gateway) (2 + of_nat 0) = Inr (ex_block 2)"
    by (simp add: ex_gateway_def ex_backend_def)
  have nm: "no_matching_events ex_gateway ''A.Ev'' (ex_block 2)"
    by (simp add: no_matching_events_def ex_gateway_def ex_backend_def ex_block_def)
  have cv: "FlowEventsToSDK ex_lib [] = Inr []" by (simp add: ex_lib_def)
  from e l1 have "\<exists>block. b_GetBlockByHeight (backend ex_gateway) (2 + of_nat 0) = Inr block \<and>
                 BlockID (batches ! 0) = fg_ID block \<and>
                 be_Height (batches ! 0) = fg_Height block \<and>
                 BlockTimestamp (batches ! 0) = fg_Timestamp block \<and>
                 (no_matching_events ex_gateway ''A.Ev'' block \<and> FlowEventsToSDK ex_lib [] = Inr [] \<longrightarrow>
                    Events (batches ! 0) = Some [])" by simp
  with blk nm cv have "BlockID (batches ! 0) = fg_ID (ex_block 2) \<and>
      be_Height (batches ! 0) = fg_Height (ex_block 2) \<and> Events (batches ! 0) = Some []"
    by auto
  then have "BlockID (batches ! 0) = 102 \<and> be_Height (batches ! 0) = 2 \<and>
      Events (batches ! 0) = Some []"
    by (simp add: ex_block_def)
  with r l1 show ?thesis by blast
qed

section \<open>Errors at the gateway boundary\<close>

lemma flat_UnwrapStatusError: "flat (UnwrapStatusError lib err)"
  by (simp add: UnwrapStatusError_def)

lemma embedded_GetAccount_flat:
  "EmulatorGateway_GetAccount lib g address = Inl e \<Longrightarrow> flat e"
  by (auto simp add: EmulatorGateway_GetAccount_def flat_UnwrapStatusError split: sum.splits)

lemma embedded_SendSignedTransaction_flat:
  "EmulatorGateway_SendSignedTransaction lib g tx = Inl e \<Longrightarrow> flat e"
  by (auto simp add: EmulatorGateway_SendSignedTransaction_def flat_UnwrapStatusError
        split: option.splits)

lemma embedded_GetTransactionResult_flat:
  "EmulatorGateway_GetTransactionResult lib g ID waitSeal = Inl e \<Longrightarrow> flat e"
  by (auto simp add: EmulatorGateway_GetTransactionResult_def flat_UnwrapStatusError
        split: sum.splits)

lemma embedded_GetTransaction_flat:
  "EmulatorGateway_GetTransaction lib g ID = Inl e \<Longrightarrow> flat e"
  by (auto simp add: EmulatorGateway_GetTransaction_def flat_UnwrapStatusError split: sum.splits)

lemma embedded_Ping_flat:
  "EmulatorGateway_Ping lib g = Some e \<Longrightarrow> flat e"
  by (auto simp add: EmulatorGateway_Ping_def flat_UnwrapStatusError split: option.splits)

lemma embedded_ExecuteScript_flat:
  "EmulatorGateway_ExecuteScript lib g script arguments = Inl e \<Longrightarrow> flat e"
  by (auto simp add: EmulatorGateway_ExecuteScript_def flat_UnwrapStatusError split: sum.splits)

lemma embedded_GetLatestBlock_flat:
  "EmulatorGateway_GetLatestBlock lib g = Inl e \<Longrightarrow> flat e"
  by (auto simp add: EmulatorGateway_GetLatestBlock_def flat_UnwrapStatusError split: sum.splits)

lemma embedded_GetCollection_flat:
  "EmulatorGateway_GetCollection lib g ID = Inl e \<Longrightarrow> flat e"
  by (auto simp add: EmulatorGateway_GetCollection_def flat_UnwrapStatusError split: sum.splits)

lemma embedded_GetBlockByID_flat:
  "EmulatorGateway_GetBlockByID lib g ID = Inl e \<Longrightarrow> flat e"
  by (auto simp add: EmulatorGateway_GetBlockByID_def flat_UnwrapStatusError split: sum.splits)

lemma embedded_GetBlockByHeight_flat:
  "EmulatorGateway_GetBlockByHeight lib g height = Inl e \<Longrightarrow> flat e"
  by (auto simp add: EmulatorGateway_GetBlockByHeight_def flat_UnwrapStatusError
        split: sum.splits)

lemma embedded_GetLatestProtocolStateSnapshot_flat:
  "EmulatorGateway_GetLatestProtocolStateSnapshot lib g = Inl e \<Longrightarrow> flat e"
  by (auto simp add: EmulatorGateway_GetLatestProtocolStateSnapshot_def flat_UnwrapStatusError
        split: sum.splits)

lemma embedded_LoadSnapshot_flat:
  "fst (LoadSnapshot g name) = Some e \<Longrightarrow> flat e"
  by (auto simp add: LoadSnapshot_def split: option.splits)

lemma remote_GetAccount_carries:
  "GrpcGateway_GetAccount g address = Inl e \<Longrightarrow>
   \<exists>native. c_GetAccountAtLatestBlock (client g) address = Inl native \<and> carries native e \<and> \<not> flat e"
  by (auto simp add: GrpcGateway_GetAccount_def split: sum.splits)

lemma remote_PrepareTransactionPayload_carries:
  assumes "PrepareTransactionPayload g tx = Inl (Returned e)"
  shows "\<exists>native. (c_GetAccountAtLatestBlock (client g) (proposalAddress_of tx) = Inl native \<or>
                    c_GetLatestBlockHeader (client g) True = Inl native) \<and>
                   carries native e \<and> \<not> flat e"
proof (cases "c_GetAccountAtLatestBlock (client g) (proposalAddress_of tx)")
  case (Inl native)
  then have "GrpcGateway_GetAccount g (proposalAddress_of tx) =
               Inl (Errorf ''failed to get account with address %s: %w''
                      [A (proposalAddress_of tx), W native])"
    by (simp add: GrpcGateway_GetAccount_def)
  then have "PrepareTransactionPayload g tx =
               Inl (Returned (Errorf ''failed to get account with address %s: %w''
                      [A (proposalAddress_of tx), W native]))"
    unfolding PrepareTransactionPayload_def proposalAddress_of_def Let_def by simp
  with assms Inl show ?thesis by auto
next
  case (Inr proposer)
  from PrepareTransactionPayload_fetched[OF Inr] assms
  show ?thesis
    by (auto simp add: Let_def split: if_splits sum.splits)
qed

lemma remote_SendSignedTransaction_carries:
  "GrpcGateway_SendSignedTransaction g transaction = Inl e \<Longrightarrow>
   \<exists>native. c_SendTransaction (client g) (FlowTransaction transaction) = Some native \<and>
            carries native e \<and> \<not> flat e"
  by (auto simp add: GrpcGateway_SendSignedTransaction_def Let_def split: option.splits)

lemma remote_ExecuteScript_carries:
  "GrpcGateway_ExecuteScript g script arguments = Inl e \<Longrightarrow>
   \<exists>native. c_ExecuteScriptAtLatestBlock (client g) script arguments = Inl native \<and>
            carries native e \<and> \<not> flat e"
  by (auto simp add: GrpcGateway_ExecuteScript_def split: sum.splits)

lemma remote_GetTransactionResult_error:
  assumes "GrpcGateway_GetTransactionResult lib g tx waitSeal n = Some (Inl e, m)"
  shows "poll lib g tx (m - 1) = Inl e"
proof (cases waitSeal)
  case True
  with wait_result[OF assms] show ?thesis by auto
next
  case False
  with assms show ?thesis by (auto simp add: no_wait)
qed

text \<open>
  Claim C8, as stated, fails for the remote gateway. A failing \<open>GetTransaction\<close> returns
  the status error of the Access API client as it is, and a failing \<open>GetAccount\<close> returns
  it wrapped intact under a prefix; neither is a flat message.
\<close>

theorem C8_counterexample:
  "GrpcGateway_GetTransaction ex_grpc 1 = Inl (StatusError 5 ''transaction not found'') \<and>
   \<not> flat (StatusError 5 ''transaction not found'') \<and>
   GrpcGateway_GetAccount ex_grpc 11 =
     Inl (Errorf ''failed to get account with address %s: %w''
            [A 11, W (StatusError 5 ''account not found'')]) \<and>
   \<not> flat (Errorf ''failed to get account with address %s: %w''
            [A 11, W (StatusError 5 ''account not found'')])"
  by (simp add: GrpcGateway_GetTransaction_def GrpcGateway_GetAccount_def ex_grpc_def
        ex_client_def)

text \<open>
  Claim C8, amended. Every operation of the embedded gateway that returns an error returns
  a flat message: the message of the backend's status, with no error value wrapped in it.
  The remote gateway does not unwrap: \<open>GetTransaction\<close>, \<open>GetTransactionResult\<close>,
  \<open>GetLatestBlock\<close>, \<open>GetBlockByID\<close>, \<open>GetBlockByHeight\<close>, \<open>GetEvents\<close> and
  \<open>GetCollection\<close> return the error of the Access API client as it is, and \<open>GetAccount\<close>,
  \<open>PrepareTransactionPayload\<close>, \<open>SendSignedTransaction\<close> and \<open>ExecuteScript\<close> return it
  wrapped intact under a prefix.
\<close>

theorem C8_embedded_flat_remote_native:
  "(EmulatorGateway_GetAccount lib eg address = Inl e \<longrightarrow> flat e) \<and>
   (EmulatorGateway_SendSignedTransaction lib eg ftx = Inl e \<longrightarrow> flat e) \<and>
   (EmulatorGateway_GetTransactionResult lib eg ID waitSeal = Inl e \<longrightarrow> flat e) \<and>
   (EmulatorGateway_GetTransaction lib eg ID = Inl e \<longrightarrow> flat e) \<and>
   (EmulatorGateway_Ping lib eg = Some e \<longrightarrow> flat e) \<and>
   (EmulatorGateway_ExecuteScript lib eg script arguments = Inl e \<longrightarrow> flat e) \<and>
   (EmulatorGateway_GetLatestBlock lib eg = Inl e \<longrightarrow> flat e) \<and>
   (EmulatorGateway_GetCollection lib eg ID = Inl e \<longrightarrow> flat e) \<and>
   (EmulatorGateway_GetBlockByID lib eg ID = Inl e \<longrightarrow> flat e) \<and>
   (EmulatorGateway_GetBlockByHeight lib eg height = Inl e \<longrightarrow> flat e) \<and>
   (EmulatorGateway_GetLatestProtocolStateSnapshot lib eg = Inl e \<longrightarrow> flat e) \<and>
   (fst (LoadSnapshot eg name) = Some e \<longrightarrow> flat e) \<and>
   GrpcGateway_GetTransaction g ID = c_GetTransaction (client g) ID \<and>
   (GrpcGateway_GetTransactionResult lib g tx waitSeal n = Some (Inl e, m) \<longrightarrow>
      c_GetTransactionResult (client g) (Transaction_ID lib tx) (m - 1) = Inl e) \<and>
   GrpcGateway_GetLatestBlock g = c_GetLatestBlock (client g) True \<and>
   GrpcGateway_GetBlockByID g ID = c_GetBlockByID (client g) ID \<and>
   GrpcGateway_GetBlockByHeight g height = c_GetBlockByHeight (client g) height \<and>
   GrpcGateway_GetEvents g eventType startHeight endHeight =
     c_GetEventsForHeightRange (client g) eventType startHeight endHeight \<and>
   GrpcGateway_GetCollection g ID = c_GetCollection (client g) ID \<and>
   (GrpcGateway_GetAccount g address = Inl e \<longrightarrow>
      (\<exists>native. c_GetAccountAtLatestBlock (client g) address = Inl native \<and>
                carries native e \<and> \<not> flat e)) \<and>
   (PrepareTransactionPayload g ptx = Inl (Returned e) \<longrightarrow>
      (\<exists>native. (c_GetAccountAtLatestBlock (client g) (proposalAddress_of ptx) = Inl native \<or>
                 c_GetLatestBlockHeader (client g) True = Inl native) \<and>
                carries native e \<and> \<not> flat e)) \<and>
   (GrpcGateway_SendSignedTransaction g ptx = Inl e \<longrightarrow>
      (\<exists>native. c_SendTransaction (client g) (FlowTransaction ptx) = Some native \<and>
                carries native e \<and> \<not> flat e)) \<and>
   (GrpcGateway_ExecuteScript g script arguments = Inl e \<longrightarrow>
      (\<exists>native. c_ExecuteScriptAtLatestBlock (client g) script arguments = Inl native \<and>
                carries native e \<and> \<not> flat e))"
proof (intro conjI impI)
  show "GrpcGateway_GetTransaction g ID = c_GetTransaction (client g) ID"
    by (simp add: GrpcGateway_GetTransaction_def)
  show "GrpcGateway_GetLatestBlock g = c_GetLatestBlock (client g) True"
    by (simp add: GrpcGateway_GetLatestBlock_def)
  show "GrpcGateway_GetBlockByID g ID = c_GetBlockByID (client g) ID"
    by (simp add: GrpcGateway_GetBlockByID_def)
  show "GrpcGateway_GetBlockByHeight g height = c_GetBlockByHeight (client g) height"
    by (simp add: GrpcGateway_GetBlockByHeight_def)
  show "GrpcGateway_GetEvents g eventType startHeight endHeight =
          c_GetEventsForHeightRange (client g) eventType startHeight endHeight"
    by (simp add: GrpcGateway_GetEvents_def)
  show "GrpcGateway_GetCollection g ID = c_GetCollection (client g) ID"
    by (simp add: GrpcGateway_GetCollection_def)
next
  assume "GrpcGateway_GetTransactionResult lib g tx waitSeal n = Some (Inl e, m)"
  from remote_GetTransactionResult_error[OF this]
  show "c_GetTransactionResult (client g) (Transaction_ID lib tx) (m - 1) = Inl e"
    by (simp add: poll_def)
qed (erule embedded_GetAccount_flat embedded_SendSignedTransaction_flat
       embedded_GetTransactionResult_flat embedded_GetTransaction_flat embedded_Ping_flat
       embedded_ExecuteScript_flat embedded_GetLatestBlock_flat embedded_GetCollection_flat
       embedded_GetBlockByID_flat embedded_GetBlockByHeight_flat
       embedded_GetLatestProtocolStateSnapshot_flat embedded_LoadSnapshot_flat
       remote_GetAccount_carries remote_PrepareTransactionPayload_carries
       remote_SendSignedTransaction_carries remote_ExecuteScript_carries)+

theorem C8_witness:
  "EmulatorGateway_GetAccount ex_lib ex_gateway 10 = Inl (Errorf ''account not found'' []) \<and>
   flat (Errorf ''account not found'' []) \<and>
   EmulatorGateway_Ping ex_lib ex_gateway = Some (Errorf ''unavailable'' []) \<and>
   flat (Errorf ''unavailable'' []) \<and>
   GrpcGateway_GetTransaction ex_grpc 1 = Inl (StatusError 5 ''transaction not found'') \<and>
   carries (StatusError 5 ''account not found'')
     (Errorf ''failed to get account with address %s: %w''
        [A 11, W (StatusError 5 ''account not found'')])"
proof -
  have a: "EmulatorGateway_GetAccount ex_lib ex_gateway 10 = Inl (Errorf ''account not found'' [])"
    by (simp add: EmulatorGateway_GetAccount_def UnwrapStatusError_def ex_gateway_def
          ex_backend_def ex_lib_def)
  have p: "EmulatorGateway_Ping ex_lib ex_gateway = Some (Errorf ''unavailable'' [])"
    by (simp add: EmulatorGateway_Ping_def UnwrapStatusError_def ex_gateway_def
          ex_backend_def ex_lib_def)
  have r: "GrpcGateway_GetAccount ex_grpc 11 =
             Inl (Errorf ''failed to get account with address %s: %w''
                    [A 11, W (StatusError 5 ''account not found'')])"
    by (simp add: GrpcGateway_GetAccount_def ex_grpc_def ex_client_def)
  have n: "c_GetAccountAtLatestBlock (client ex_grpc) 11 = Inl (StatusError 5 ''account not found'')"
    by (simp add: ex_grpc_def ex_client_def)
  have t: "c_GetTransaction (client ex_grpc) 1 = Inl (StatusError 5 ''transaction not found'')"
    by (simp add: ex_grpc_def ex_client_def)
  note w1 = C8_embedded_flat_remote_native
              [where lib = ex_lib and eg = ex_gateway and address = 10
                 and e = "Errorf ''account not found'' []"]
  note w2 = C8_embedded_flat_remote_native
              [where lib = ex_lib and eg = ex_gateway and g = ex_grpc and ID = 1
                 and e = "Errorf ''unavailable'' []"]
  note w3 = C8_embedded_flat_remote_native
              [where g = ex_grpc and address = 11
                 and e = "Errorf ''failed to get account with address %s: %w''
                            [A 11, W (StatusError 5 ''account not found'')]"]
  have "flat (Errorf ''account not found'' [])" using w1 a by blast
  moreover have "flat (Errorf ''unavailable'' [])" using w2 p by blast
  moreover have "GrpcGateway_GetTransaction ex_grpc 1 = Inl (StatusError 5 ''transaction not found'')"
    using w2 t by simp
  moreover have "carries (StatusError 5 ''account not found'')
     (Errorf ''failed to get account with address %s: %w''
        [A 11, W (StatusError 5 ''account not found'')])"
    using w3 r n by auto
  ultimately show ?thesis using a p by simp
qed

end
